theory Spec2Isabelle
  imports Complex_Main "HOL-Library.Stream" "HOL-Library.Char_ord" "HOL-Library.List_Lexorder"
begin

section \<open>The Python library, as far as the two scripts use it\<close>

subsection \<open>The pseudo-random generator\<close>

text \<open>
  Both scripts draw from the module-global generator of Python's \<^verbatim>\<open>random\<close>. The
  generator itself is library code; its state is modelled by the stream of the raw
  outcomes of its primitive draws, one element per call of \<^verbatim>\<open>random()\<close> or of
  \<^verbatim>\<open>_randbelow(n)\<close>. Every run of the library generator is some such stream, so a
  statement for all streams holds for all seeds.
\<close>

type_synonym rng = "nat stream"

text \<open>\<^verbatim>\<open>random.random()\<close>: a double \<open>k / 2^53\<close> with \<open>0 \<le> k < 2^53\<close>.\<close>

definition random_random :: "rng \<Rightarrow> rat \<times> rng" where
  "random_random g = (of_nat (shd g mod 2 ^ 53) / 2 ^ 53, stl g)"

definition randbelow :: "nat \<Rightarrow> rng \<Rightarrow> nat \<times> rng" where
  "randbelow n g = (shd g mod n, stl g)"

text \<open>\<^verbatim>\<open>random.randint(a, b)\<close> is \<^verbatim>\<open>a + _randbelow(b - a + 1)\<close>.\<close>

definition randint :: "int \<Rightarrow> int \<Rightarrow> rng \<Rightarrow> int \<times> rng" where
  "randint a b g = (let (r, g1) = randbelow (nat (b - a + 1)) g in (a + int r, g1))"

text \<open>
  \<^verbatim>\<open>random.choice(seq)\<close> is \<^verbatim>\<open>seq[_randbelow(len(seq))]\<close>. It raises IndexError on
  an empty sequence; every call in the scripts passes a non-empty literal table or an
  identifier pool that was just tested to be non-empty.
\<close>

definition choice :: "'a list \<Rightarrow> rng \<Rightarrow> 'a \<times> rng" where
  "choice xs g = (let (j, g1) = randbelow (length xs) g in (xs ! j, g1))"

text \<open>
  \<^verbatim>\<open>random.sample(population, k)\<close> for a population of at most 21 elements (all the
  populations here have at most 18): the pool algorithm of CPython,
  \<^verbatim>\<open>for i in range(k): j = _randbelow(n - i); result[i] = pool[j]; pool[j] = pool[n - i - 1]\<close>.
  The second argument of \<open>sample_from\<close> is \<open>n - i\<close>.
\<close>

fun sample_from :: "'a list \<Rightarrow> nat \<Rightarrow> nat \<Rightarrow> rng \<Rightarrow> 'a list \<times> rng" where
  "sample_from pool m 0 g = ([], g)"
| "sample_from pool m (Suc k) g =
     (let (j, g1) = randbelow m g;
          (rest, g2) = sample_from (pool[j := pool ! (m - 1)]) (m - 1) k g1
      in (pool ! j # rest, g2))"

definition sample :: "'a list \<Rightarrow> nat \<Rightarrow> rng \<Rightarrow> 'a list \<times> rng" where
  "sample population k g = sample_from population (length population) k g"

subsection \<open>Doubles\<close>

text \<open>
  A float literal of the source denotes the double nearest to the decimal. The
  thresholds the scripts compare a draw with are these doubles, written as exact
  rationals; \<open>nearest_double\<close> below recomputes them.
\<close>

definition round_half_even :: "rat \<Rightarrow> int" where
  "round_half_even q =
     (let f = \<lfloor>q\<rfloor>; d = q - of_int f
      in if d < 1 / 2 then f else if 1 / 2 < d then f + 1 else if even f then f else f + 1)"

text \<open>
  The exponent \<open>e\<close> with \<open>2^e \<le> a / b < 2^(e + 1)\<close>, from the bit lengths of \<open>a\<close>
  and \<open>b\<close>.
\<close>

fun bit_length :: "nat \<Rightarrow> nat" where
  "bit_length n = (if n = 0 then 0 else Suc (bit_length (n div 2)))"

declare bit_length.simps [simp del]

definition exponent2 :: "nat \<Rightarrow> nat \<Rightarrow> int" where
  "exponent2 a b =
     (let d = int (bit_length a) - int (bit_length b)
      in if of_nat b * (2::rat) powi d \<le> of_nat a then d else d - 1)"

text \<open>
  Round to nearest, ties to even, 53 significant bits: the double nearest to a
  non-negative rational in the normal range.
\<close>

definition nearest_double :: "rat \<Rightarrow> rat" where
  "nearest_double q =
     (let (a, b) = quotient_of q; e = exponent2 (nat a) (nat b)
      in of_int (round_half_even (q * 2 powi (52 - e))) * 2 powi (e - 52))"

definition f_0_05 :: rat where "f_0_05 = 3602879701896397 / 2 ^ 56"
definition f_0_1 :: rat where "f_0_1 = 3602879701896397 / 2 ^ 55"
definition f_0_12 :: rat where "f_0_12 = 1080863910568919 / 2 ^ 53"
definition f_0_15 :: rat where "f_0_15 = 5404319552844595 / 2 ^ 55"
definition f_0_2 :: rat where "f_0_2 = 3602879701896397 / 2 ^ 54"
definition f_0_3 :: rat where "f_0_3 = 5404319552844595 / 2 ^ 54"
definition f_0_4 :: rat where "f_0_4 = 3602879701896397 / 2 ^ 53"
definition f_0_5 :: rat where "f_0_5 = 1 / 2"
definition f_0_6 :: rat where "f_0_6 = 5404319552844595 / 2 ^ 53"
definition f_0_7 :: rat where "f_0_7 = 6305039478318694 / 2 ^ 53"

subsection \<open>Strings\<close>

definition digit_char :: "nat \<Rightarrow> char" where
  "digit_char d = ''0123456789'' ! d"

fun str_nat :: "nat \<Rightarrow> string" where
  "str_nat n = (if n < 10 then [digit_char n] else str_nat (n div 10) @ [digit_char (n mod 10)])"

declare str_nat.simps [simp del]

text \<open>\<^verbatim>\<open>str(i)\<close> and \<^verbatim>\<open>f"{i}"\<close> of an integer.\<close>

definition str_int :: "int \<Rightarrow> string" where
  "str_int i = (if i < 0 then CHR ''-'' # str_nat (nat (- i)) else str_nat (nat i))"

text \<open>\<^verbatim>\<open>f"{i:06d}"\<close>: zero-padded to six characters (the sign counts).\<close>

definition format_06d :: "int \<Rightarrow> string" where
  "format_06d i =
     (if i < 0 then CHR ''-'' # replicate (5 - length (str_nat (nat (- i)))) CHR ''0'' @ str_nat (nat (- i))
      else replicate (6 - length (str_nat (nat i))) CHR ''0'' @ str_nat (nat i))"

text \<open>\<^verbatim>\<open>s.lower()\<close>; the tables are ASCII.\<close>

definition lower_char :: "char \<Rightarrow> char" where
  "lower_char c =
     (if 65 \<le> (of_char c :: nat) \<and> (of_char c :: nat) \<le> 90 then char_of (of_char c + 32 :: nat) else c)"

definition lower :: "string \<Rightarrow> string" where
  "lower s = map lower_char s"

text \<open>
  \<^verbatim>\<open>template.format(**kw)\<close> for templates whose replacement fields are plain names
  in braces. The first argument is the field name being read (\<open>None\<close> outside braces).
  The templates of the scripts are well formed and every field they name is passed, so
  the ValueError and KeyError of the library cannot arise.
\<close>

fun format_from :: "string option \<Rightarrow> string \<Rightarrow> (string \<times> string) list \<Rightarrow> string" where
  "format_from _ [] kw = []"
| "format_from None (c # cs) kw =
     (if c = CHR ''{'' then format_from (Some []) cs kw else c # format_from None cs kw)"
| "format_from (Some name) (c # cs) kw =
     (if c = CHR ''}'' then (case map_of kw name of Some v \<Rightarrow> v | None \<Rightarrow> []) @ format_from None cs kw
      else format_from (Some (name @ [c])) cs kw)"

definition format :: "string \<Rightarrow> (string \<times> string) list \<Rightarrow> string" where
  "format template kw = format_from None template kw"

text \<open>\<^verbatim>\<open>",".join(xs)\<close>.\<close>

fun join :: "string \<Rightarrow> string list \<Rightarrow> string" where
  "join sep [] = []"
| "join sep [x] = x"
| "join sep (x # y # ys) = x @ sep @ join sep (y # ys)"

subsection \<open>Dynamically typed values\<close>

text \<open>
  The cells of a row and the entries of the materials table are Python objects:
  strings, integers, and tuples of them.
\<close>

datatype pyval = PStr string | PInt int | PTuple "pyval list"

definition is_tuple :: "pyval \<Rightarrow> bool" where
  "is_tuple v = (case v of PTuple _ \<Rightarrow> True | _ \<Rightarrow> False)"

definition py_len :: "pyval \<Rightarrow> nat" where
  "py_len v = (case v of PTuple xs \<Rightarrow> length xs | PStr s \<Rightarrow> length s | PInt _ \<Rightarrow> 0)"

definition item :: "pyval \<Rightarrow> nat \<Rightarrow> pyval" where
  "item v i = (case v of PTuple xs \<Rightarrow> xs ! i | PStr s \<Rightarrow> PStr [s ! i] | PInt _ \<Rightarrow> v)"

definition int_of :: "pyval \<Rightarrow> int" where
  "int_of v = (case v of PInt i \<Rightarrow> i | _ \<Rightarrow> 0)"

text \<open>Truthiness of a cell (\<^verbatim>\<open>not row["upid"]\<close>): empty strings and zero are false.\<close>

definition truthy :: "pyval \<Rightarrow> bool" where
  "truthy v = (case v of PStr s \<Rightarrow> s \<noteq> [] | PInt i \<Rightarrow> i \<noteq> 0 | PTuple xs \<Rightarrow> xs \<noteq> [])"

text \<open>\<^verbatim>\<open>str(v)\<close> of a cell, as the CSV writer applies it.\<close>

definition str_cell :: "pyval \<Rightarrow> string" where
  "str_cell v = (case v of PStr s \<Rightarrow> s | PInt i \<Rightarrow> str_int i | PTuple _ \<Rightarrow> [])"

text \<open>A row is a \<^verbatim>\<open>dict\<close>: keys in insertion order.\<close>

type_synonym row = "(string \<times> pyval) list"

text \<open>
  \<^verbatim>\<open>row[k]\<close>; the KeyError of an absent key cannot arise, every read in the
  scripts is of one of the nineteen keys of a generated row.
\<close>

definition getitem :: "row \<Rightarrow> string \<Rightarrow> pyval" where
  "getitem r k = (case map_of r k of Some v \<Rightarrow> v | None \<Rightarrow> PStr [])"

text \<open>\<^verbatim>\<open>row[k] = v\<close>: replaces the value of a present key, appends an absent one.\<close>

fun setitem :: "row \<Rightarrow> string \<Rightarrow> pyval \<Rightarrow> row" where
  "setitem [] k v = [(k, v)]"
| "setitem ((k', v') # r) k v = (if k' = k then (k, v) # r else (k', v') # setitem r k v)"

section \<open>\<^verbatim>\<open>generate-test-data.py\<close>\<close>

subsection \<open>Tables\<close>

definition PRODUCT_TYPES :: "string list" where
  "PRODUCT_TYPES =
     [''T-Shirt'', ''Polo Shirt'', ''Dress Shirt'', ''Sweater'', ''Hoodie'',
      ''Jeans'', ''Chinos'', ''Shorts'', ''Dress Pants'', ''Joggers'',
      ''Jacket'', ''Blazer'', ''Coat'', ''Vest'', ''Parka'',
      ''Dress'', ''Skirt'', ''Blouse'', ''Cardigan'', ''Tank Top'']"

definition PRODUCT_STYLES :: "string list" where
  "PRODUCT_STYLES =
     [''Classic'', ''Slim Fit'', ''Regular Fit'', ''Oversized'', ''Fitted'',
      ''Vintage'', ''Modern'', ''Casual'', ''Formal'', ''Athletic'',
      ''Premium'', ''Essential'', ''Signature'', ''Limited Edition'', ''Heritage'']"

definition PRODUCT_MATERIALS_PRIMARY :: "string list" where
  "PRODUCT_MATERIALS_PRIMARY =
     [''Cotton'', ''Polyester'', ''Wool'', ''Linen'', ''Silk'',
      ''Denim'', ''Leather'', ''Suede'', ''Cashmere'', ''Fleece'']"

definition COLORS :: "string list" where
  "COLORS =
     [''Black'', ''White'', ''Gray'', ''Navy Blue'', ''Red'',
      ''Green'', ''Blue'', ''Yellow'', ''Orange'', ''Purple'',
      ''Pink'', ''Brown'', ''Beige'', ''Charcoal'', ''Olive'',
      ''Burgundy'', ''Teal'', ''Mint Green'', ''Sky Blue'', ''Coral'']"

definition SIZES :: "string list" where
  "SIZES = [''XS'', ''S'', ''M'', ''L'', ''XL'', ''2XL'', ''3XL'']"

definition CATEGORIES :: "string list" where
  "CATEGORIES =
     [''T-Shirts'', ''Shirts'', ''Pants'', ''Outerwear'', ''Dresses'',
      ''Knitwear'', ''Activewear'', ''Accessories'', ''Footwear'']"

definition SEASONS :: "string list" where
  "SEASONS =
     [''Spring 2024'', ''Summer 2024'', ''Fall 2024'', ''Winter 2024'',
      ''Spring/Summer 2024'', ''Fall/Winter 2024'', ''SS24'', ''FW24'', ''AW24'']"

definition MATERIALS :: "pyval list" where
  "MATERIALS =
     [PTuple [PStr ''Cotton'', PInt 100],
      PTuple [PStr ''Organic Cotton'', PInt 100],
      PTuple [PStr ''Polyester'', PInt 100],
      PTuple [PStr ''Recycled Polyester'', PInt 100],
      PTuple [PStr ''Wool'', PInt 100],
      PTuple [PStr ''Merino Wool'', PInt 100],
      PTuple [PStr ''Cotton'', PInt 65], PTuple [PStr ''Polyester'', PInt 35],
      PTuple [PStr ''Cotton'', PInt 95], PTuple [PStr ''Elastane'', PInt 5],
      PTuple [PStr ''Polyester'', PInt 88], PTuple [PStr ''Elastane'', PInt 12],
      PTuple [PStr ''Wool'', PInt 80], PTuple [PStr ''Nylon'', PInt 20],
      PTuple [PStr ''Linen'', PInt 70], PTuple [PStr ''Cotton'', PInt 30],
      PTuple [PStr ''Viscose'', PInt 60], PTuple [PStr ''Polyester'', PInt 40]]"

definition CARE_CODES :: "string list" where
  "CARE_CODES =
     [''MACHINE_WASH'', ''HAND_WASH'', ''DRY_CLEAN'', ''TUMBLE_DRY'',
      ''DO_NOT_BLEACH'', ''IRON_LOW_HEAT'', ''DO_NOT_IRON'']"

definition ECO_CLAIMS :: "string list" where
  "ECO_CLAIMS =
     [''ORGANIC'', ''RECYCLED'', ''CARBON_NEUTRAL'', ''GOTS_CERTIFIED'',
      ''FAIR_TRADE'', ''OEKO_TEX'', ''BLUESIGN'', ''CRADLE_TO_CRADLE'']"

subsection \<open>The generator object\<close>

text \<open>
  The fields of \<^verbatim>\<open>TestDataGenerator\<close>, and with them the state of the module-global
  generator of \<^verbatim>\<open>random\<close>, which the methods advance.
\<close>

record TestDataGenerator =
  scenario :: string
  rows :: int
  seed :: int
  generated_upids :: "string set"
  generated_skus :: "string set"
  random_state :: rng

text \<open>
  \<^verbatim>\<open>__init__\<close>. Three things come from outside the script and are parameters:
  \<open>mt\<close>, the library's \<^verbatim>\<open>random.seed\<close>, which maps a seed to the generator state;
  \<open>entropy\<close>, the state of the global generator at import, which the library seeds
  from the operating system; and below, \<open>hash_order\<close>. The expression
  \<^verbatim>\<open>seed or random.randint(1, 1000000)\<close> takes the right operand when \<^verbatim>\<open>seed\<close> is
  \<^verbatim>\<open>None\<close> or \<^verbatim>\<open>0\<close>.
\<close>

definition init :: "(int \<Rightarrow> rng) \<Rightarrow> rng \<Rightarrow> string \<Rightarrow> int \<Rightarrow> int option \<Rightarrow> TestDataGenerator" where
  "init mt entropy scenario' rows' seed' =
     (let s = (case seed' of
                 None \<Rightarrow> fst (randint 1 1000000 entropy)
               | Some v \<Rightarrow> if v \<noteq> 0 then v else fst (randint 1 1000000 entropy))
      in \<lparr>scenario = scenario', rows = rows', seed = s,
          generated_upids = {}, generated_skus = {}, random_state = mt s\<rparr>)"

text \<open>
  \<^verbatim>\<open>list(self.generated_upids)\<close> enumerates a set of strings in the order of their
  hashes, which Python salts per process: the order is the parameter \<open>hash_order\<close>.
\<close>

definition generate_upid ::
  "(string set \<Rightarrow> string list) \<Rightarrow> bool \<Rightarrow> TestDataGenerator \<Rightarrow> string \<times> TestDataGenerator" where
  "generate_upid hash_order allow_duplicate self =
     (let (reuse, g1) =
            (if allow_duplicate \<and> generated_upids self \<noteq> {}
             then (let (r, g) = random_random (random_state self) in (r < f_0_3, g))
             else (False, random_state self))
      in if reuse then
           (let (u, g2) = choice (hash_order (generated_upids self)) g1
            in (u, self\<lparr>random_state := g2\<rparr>))
         else
           (let (n, g2) = randint 100000 999999 g1;
                upid = ''UPID-'' @ format_06d n
            in (upid, self\<lparr>generated_upids := insert upid (generated_upids self), random_state := g2\<rparr>)))"

definition generate_sku ::
  "(string set \<Rightarrow> string list) \<Rightarrow> bool \<Rightarrow> TestDataGenerator \<Rightarrow> string \<times> TestDataGenerator" where
  "generate_sku hash_order allow_duplicate self =
     (let (reuse, g1) =
            (if allow_duplicate \<and> generated_skus self \<noteq> {}
             then (let (r, g) = random_random (random_state self) in (r < f_0_3, g))
             else (False, random_state self))
      in if reuse then
           (let (k, g2) = choice (hash_order (generated_skus self)) g1
            in (k, self\<lparr>random_state := g2\<rparr>))
         else
           (let (prefix, g2) = choice [''TSH'', ''PNT'', ''JKT'', ''DRS''] g1;
                (n, g3) = randint 10000 99999 g2;
                sku = ''SKU-'' @ prefix @ ''-'' @ str_int n
            in (sku, self\<lparr>generated_skus := insert sku (generated_skus self), random_state := g3\<rparr>)))"

definition generate_product_name :: "bool \<Rightarrow> rng \<Rightarrow> string \<times> rng" where
  "generate_product_name invalid g =
     (if invalid then
        (let (error_type, g1) = choice [''too_long'', ''empty'', ''special_chars''] g
         in if error_type = ''too_long'' then (replicate 150 CHR ''A'', g1)
            else if error_type = ''empty'' then ([], g1)
            else (''Product@#$%^&*()'', g1))
      else
        (let (style, g1) = choice PRODUCT_STYLES g;
             (ptype, g2) = choice PRODUCT_TYPES g1;
             (material, g3) = choice PRODUCT_MATERIALS_PRIMARY g2;
             name_templates =
               [style @ '' '' @ ptype,
                material @ '' '' @ ptype,
                style @ '' '' @ material @ '' '' @ ptype,
                ptype]
         in choice name_templates g3))"

definition description_templates :: "string list" where
  "description_templates =
     [''A comfortable and stylish {product} perfect for everyday wear. Made with high-quality {material}.'',
      ''Discover the {style} {product} crafted from premium {material}. Ideal for any occasion.'',
      ''Elevate your wardrobe with this {style} {product}. Features exceptional quality and durability.'',
      ''Classic {product} design meets modern comfort. Made from sustainable {material}.'',
      ''The perfect {product} for the {season} season. Combines style with functionality.'']"

definition generate_description :: "bool \<Rightarrow> rng \<Rightarrow> string \<times> rng" where
  "generate_description invalid g =
     (if invalid then (replicate 2500 CHR ''D'', g)
      else
        (let (template, g1) = choice description_templates g;
             (product, g2) = choice PRODUCT_TYPES g1;
             (material, g3) = choice PRODUCT_MATERIALS_PRIMARY g2;
             (style, g4) = choice PRODUCT_STYLES g3;
             (season, g5) = choice [''spring'', ''summer'', ''fall'', ''winter''] g4
         in (format template
               [(''product'', lower product), (''material'', lower material),
                (''style'', lower style), (''season'', season)], g5)))"

definition generate_url :: "bool \<Rightarrow> rng \<Rightarrow> string \<times> rng" where
  "generate_url invalid g =
     (if invalid then (''not-a-valid-url'', g)
      else
        (let domains = [''cdn.example.com'', ''images.product-store.com'', ''assets.fashion-brand.com''];
             (n, g1) = randint 1000 9999 g;
             filename = ''product-'' @ str_int n @ ''.jpg'';
             (domain, g2) = choice domains g1
         in (''https://'' @ domain @ ''/products/'' @ filename, g2)))"

text \<open>
  \<^verbatim>\<open>generate_uuid\<close> is called nowhere in the script and is left out.

  \<^verbatim>\<open>generate_materials\<close>. The second branch normalises with float arithmetic,
  \<^verbatim>\<open>int((p / total) * 100)\<close>: a correctly rounded division, a correctly rounded
  product, and a truncation.
\<close>

definition scale_to_100 :: "int \<Rightarrow> int \<Rightarrow> int" where
  "scale_to_100 p t = \<lfloor>nearest_double (nearest_double (of_int p / of_int t) * 100)\<rfloor>"

definition generate_materials :: "bool \<Rightarrow> rng \<Rightarrow> (pyval list \<times> pyval list) \<times> rng" where
  "generate_materials invalid g =
     (if invalid then (([PStr ''Cotton'', PStr ''Polyester''], [PInt 65, PInt 50]), g)
      else
        (let (material_combo, g1) = choice MATERIALS g
         in if is_tuple material_combo \<and> py_len material_combo = 2 then
              (([item material_combo 0], [item material_combo 1]), g1)
            else
              (let (num_materials, g2) = choice [1, 2, 3] g1;
                   (selected, g3) =
                      sample (filter (\<lambda>m. is_tuple m \<and> py_len m = 2) MATERIALS)
                        (min num_materials (length MATERIALS)) g2;
                   materials = map (\<lambda>m. item m 0) (take num_materials selected);
                   percentages = map (\<lambda>m. int_of (item m 1)) (take num_materials selected);
                   total' = sum_list percentages;
                   percentages' =
                     (if 0 < total' then
                        (let ps = map (\<lambda>p. scale_to_100 p total') percentages
                         in ps[length ps - 1 := 100 - sum_list (butlast ps)])
                      else percentages)
               in ((materials, map PInt percentages'), g3))))"

subsection \<open>One row\<close>

text \<open>
  The first lines of \<^verbatim>\<open>generate_row\<close>: the decision \<^verbatim>\<open>should_have_error\<close> and the
  \<^verbatim>\<open>error_type\<close> (\<open>None\<close> for a scenario the chain does not name).
\<close>

definition disposition :: "string \<Rightarrow> int \<Rightarrow> rng \<Rightarrow> (bool \<times> string option) \<times> rng" where
  "disposition sc row_number g =
     (if sc = ''duplicates'' then ((10 < row_number, Some ''duplicate''), g)
      else if sc = ''missing_fields'' then
        (let (r, g1) = random_random g in ((r < f_0_2, Some ''missing''), g1))
      else if sc = ''invalid_formats'' then
        (let (r, g1) = random_random g in ((r < f_0_2, Some ''invalid''), g1))
      else if sc = ''mixed'' then
        (let (r, g1) = random_random g;
             (kind, g2) = choice [''duplicate'', ''missing'', ''invalid''] g1
         in ((r < f_0_1, Some kind), g2))
      else ((False, None), g))"

text \<open>\<^verbatim>\<open>c and random.random() < t\<close>: the draw is made only when \<open>c\<close> holds.\<close>

definition and_draw :: "bool \<Rightarrow> rat \<Rightarrow> rng \<Rightarrow> bool \<times> rng" where
  "and_draw c t g = (if c then (let (r, g1) = random_random g in (r < t, g1)) else (False, g))"

text \<open>\<^verbatim>\<open>while len(materials) < 3: materials.append(""); percentages.append("")\<close>\<close>

function pad_materials :: "pyval list \<Rightarrow> pyval list \<Rightarrow> pyval list \<times> pyval list" where
  "pad_materials materials percentages =
     (if length materials < 3 then pad_materials (materials @ [PStr []]) (percentages @ [PStr []])
      else (materials, percentages))"
  by pat_completeness auto
termination
  by (relation "measure (\<lambda>(m, p). 3 - length m)") auto

declare pad_materials.simps [simp del]

text \<open>
  \<^verbatim>\<open>generate_row\<close> is one function in the source; its commented blocks are taken one
  at a time here, each threading the generator, and \<open>generate_row\<close> puts them together
  in the order of the source.

  \<^verbatim>\<open># Generate UPID and SKU\<close>
\<close>

definition row_identifiers ::
  "(string set \<Rightarrow> string list) \<Rightarrow> string option \<Rightarrow> TestDataGenerator \<Rightarrow>
   (string \<times> string) \<times> TestDataGenerator" where
  "row_identifiers hash_order error_type self =
     (let (no_ids, g1) = and_draw (error_type = Some ''missing'') f_0_5 (random_state self)
      in if no_ids then (([], []), self\<lparr>random_state := g1\<rparr>)
         else
           (let (upid, self1) =
                  generate_upid hash_order (error_type = Some ''duplicate'')
                    (self\<lparr>random_state := g1\<rparr>);
                (sku, self2) = generate_sku hash_order (error_type = Some ''duplicate'') self1
            in ((upid, sku), self2)))"

text \<open>\<^verbatim>\<open># Generate product name\<close>\<close>

definition row_product_name :: "string option \<Rightarrow> rng \<Rightarrow> string \<times> rng" where
  "row_product_name error_type g =
     (let (no_name, g1) = and_draw (error_type = Some ''missing'') f_0_3 g
      in if no_name then ([], g1)
         else (let (inv, g2) = and_draw (error_type = Some ''invalid'') f_0_3 g1
               in generate_product_name inv g2))"

text \<open>
  \<^verbatim>\<open># Generate optional fields\<close>: description, category, season, primary image, and
  then colour, size and product image.
\<close>

definition row_optional ::
  "string option \<Rightarrow> rng \<Rightarrow>
   (string \<times> string \<times> string \<times> string \<times> string \<times> string \<times> string) \<times> rng" where
  "row_optional error_type g =
     (let invalid = (error_type = Some ''invalid'');
          (r_opt, g1) = random_random g;
          include_optional = (r_opt < f_0_5 \<or> invalid);
          (description, g2) =
            (if include_optional
             then (let (inv, ga) = and_draw invalid f_0_2 g1 in generate_description inv ga)
             else ([], g1));
          (category, g3) = (if include_optional then choice CATEGORIES g2 else ([], g2));
          (season, g4) = (if include_optional then choice SEASONS g3 else ([], g3));
          (primary_image_url, g5) =
            (if include_optional
             then (let (inv, ga) = and_draw invalid f_0_2 g4 in generate_url inv ga)
             else ([], g4));
          (r_color, g6) = random_random g5;
          (color, g7) = (if r_color < f_0_7 then choice COLORS g6 else ([], g6));
          (r_size, g8) = random_random g7;
          (size', g9) = (if r_size < f_0_7 then choice SIZES g8 else ([], g8));
          (r_image, g10) = random_random g9;
          (product_image_url, g11) =
            (if r_image < f_0_3
             then (let (inv, ga) = and_draw invalid f_0_2 g10 in generate_url inv ga)
             else ([], g10))
      in ((description, category, season, primary_image_url, color, size', product_image_url),
          g11))"

text \<open>\<^verbatim>\<open># Generate materials\<close> and \<^verbatim>\<open># Pad materials to 3\<close>\<close>

definition row_materials :: "string option \<Rightarrow> rng \<Rightarrow> (pyval list \<times> pyval list) \<times> rng" where
  "row_materials error_type g =
     (let (inv, g1) = and_draw (error_type = Some ''invalid'') f_0_15 g;
          ((materials, percentages), g2) = generate_materials inv g1
      in (pad_materials materials percentages, g2))"

text \<open>\<^verbatim>\<open># Generate care codes and eco claims\<close>, and the environment score.\<close>

definition row_extras :: "rng \<Rightarrow> (string \<times> string \<times> pyval) \<times> rng" where
  "row_extras g =
     (let (r_care, g1) = random_random g;
          (num_care_codes, g2) = (if r_care < f_0_6 then randint 1 4 g1 else (0, g1));
          (care_codes, g3) =
            (if 0 < num_care_codes
             then (let (xs, ga) = sample CARE_CODES (nat num_care_codes) g2 in (join '','' xs, ga))
             else ([], g2));
          (r_eco, g4) = random_random g3;
          (num_eco_claims, g5) = (if r_eco < f_0_4 then randint 1 3 g4 else (0, g4));
          (eco_claims, g6) =
            (if 0 < num_eco_claims
             then (let (xs, ga) = sample ECO_CLAIMS (nat num_eco_claims) g5 in (join '','' xs, ga))
             else ([], g5));
          (r_env, g7) = random_random g6;
          (environment_score, g8) =
            (if r_env < f_0_5 then (let (n, ga) = randint 50 100 g7 in (PInt n, ga))
             else (PStr [], g7))
      in ((care_codes, eco_claims, environment_score), g8))"

definition generate_row ::
  "(string set \<Rightarrow> string list) \<Rightarrow> int \<Rightarrow> TestDataGenerator \<Rightarrow> row \<times> TestDataGenerator" where
  "generate_row hash_order row_number self =
     (let ((should_have_error, error_type), g1) =
            disposition (scenario self) row_number (random_state self);
          ((upid, sku), self1) = row_identifiers hash_order error_type (self\<lparr>random_state := g1\<rparr>);
          (product_name, g2) = row_product_name error_type (random_state self1);
          ((description, category, season, primary_image_url, color, size', product_image_url), g3) =
            row_optional error_type g2;
          ((materials, percentages), g4) = row_materials error_type g3;
          ((care_codes, eco_claims, environment_score), g5) = row_extras g4
      in ([(''product_name'', PStr product_name),
           (''upid'', PStr upid),
           (''sku'', PStr sku),
           (''description'', PStr description),
           (''category_name'', PStr category),
           (''season'', PStr season),
           (''primary_image_url'', PStr primary_image_url),
           (''color_name'', PStr color),
           (''size_name'', PStr size'),
           (''product_image_url'', PStr product_image_url),
           (''material_1_name'', materials ! 0),
           (''material_1_percentage'', percentages ! 0),
           (''material_2_name'', materials ! 1),
           (''material_2_percentage'', percentages ! 1),
           (''material_3_name'', materials ! 2),
           (''material_3_percentage'', percentages ! 2),
           (''care_codes'', PStr care_codes),
           (''eco_claims'', PStr eco_claims),
           (''environment_score'', environment_score)],
          self1\<lparr>random_state := g5\<rparr>))"

subsection \<open>The loop\<close>

text \<open>\<^verbatim>\<open>for i in range(self.rows): row = self.generate_row(i + 1); data.append(row)\<close>\<close>

fun generate_rows ::
  "(string set \<Rightarrow> string list) \<Rightarrow> nat list \<Rightarrow> TestDataGenerator \<Rightarrow> row list \<times> TestDataGenerator" where
  "generate_rows hash_order [] self = ([], self)"
| "generate_rows hash_order (i # is) self =
     (let (row, self1) = generate_row hash_order (int i + 1) self;
          (data, self2) = generate_rows hash_order is self1
      in (row # data, self2))"

definition generate ::
  "(string set \<Rightarrow> string list) \<Rightarrow> TestDataGenerator \<Rightarrow> row list \<times> TestDataGenerator" where
  "generate hash_order self = generate_rows hash_order [0..<nat (rows self)] self"

subsection \<open>Files\<close>

text \<open>
  A file is the sequence of the CSV records written to it, each record the texts of
  its cells (the quoting of the \<^verbatim>\<open>csv\<close> module is not modelled). The storage is a
  parameter of a run: \<open>capacity = Some k\<close> is a device on which the write after the
  next \<open>k\<close> records raises OSError, \<open>None\<close> one that accepts every write. Writes are
  taken to reach the file record by record.
\<close>

datatype py_error = OSError | ValueError | KeyError | ZeroDivisionError

type_synonym csv = "string list list"

record io =
  files :: "string \<rightharpoonup> csv"
  capacity :: "nat option"

text \<open>\<^verbatim>\<open>open(name, 'w')\<close> creates the file or truncates the one in place.\<close>

definition open_w :: "string \<Rightarrow> io \<Rightarrow> io" where
  "open_w name io = io\<lparr>files := (files io)(name \<mapsto> [])\<rparr>"

definition write_record :: "string \<Rightarrow> string list \<Rightarrow> io \<Rightarrow> (py_error + unit) \<times> io" where
  "write_record name rec io =
     (let contents = (case files io name of Some c \<Rightarrow> c | None \<Rightarrow> [])
      in case capacity io of
           None \<Rightarrow> (Inr (), io\<lparr>files := (files io)(name \<mapsto> contents @ [rec])\<rparr>)
         | Some 0 \<Rightarrow> (Inl OSError, io)
         | Some (Suc k) \<Rightarrow>
             (Inr (), io\<lparr>files := (files io)(name \<mapsto> contents @ [rec]), capacity := Some k\<rparr>))"

text \<open>
  \<^verbatim>\<open>csv.DictWriter\<close>: a row with a key outside \<^verbatim>\<open>fieldnames\<close> raises ValueError; an
  absent key is written as the empty string.
\<close>

definition dict_to_list :: "string list \<Rightarrow> row \<Rightarrow> py_error + string list" where
  "dict_to_list fieldnames r =
     (if list_ex (\<lambda>k. k \<notin> set fieldnames) (map fst r) then Inl ValueError
      else Inr (map (\<lambda>k. case map_of r k of Some v \<Rightarrow> str_cell v | None \<Rightarrow> []) fieldnames))"

definition writeheader :: "string list \<Rightarrow> string \<Rightarrow> io \<Rightarrow> (py_error + unit) \<times> io" where
  "writeheader fieldnames name io = write_record name fieldnames io"

definition writerow :: "string list \<Rightarrow> string \<Rightarrow> row \<Rightarrow> io \<Rightarrow> (py_error + unit) \<times> io" where
  "writerow fieldnames name r io =
     (case dict_to_list fieldnames r of
        Inl e \<Rightarrow> (Inl e, io)
      | Inr rec \<Rightarrow> write_record name rec io)"

fun writerows :: "string list \<Rightarrow> string \<Rightarrow> row list \<Rightarrow> io \<Rightarrow> (py_error + unit) \<times> io" where
  "writerows fieldnames name [] io = (Inr (), io)"
| "writerows fieldnames name (r # rs) io =
     (case writerow fieldnames name r io of
        (Inl e, io1) \<Rightarrow> (Inl e, io1)
      | (Inr u, io1) \<Rightarrow> writerows fieldnames name rs io1)"

subsection \<open>\<^verbatim>\<open>write_csv\<close>, \<^verbatim>\<open>print_statistics\<close> and \<^verbatim>\<open>main\<close>\<close>

definition fieldnames :: "string list" where
  "fieldnames =
     [''product_name'', ''upid'', ''sku'', ''description'', ''category_name'', ''season'',
      ''primary_image_url'', ''color_name'', ''size_name'', ''product_image_url'',
      ''material_1_name'', ''material_1_percentage'', ''material_2_name'', ''material_2_percentage'',
      ''material_3_name'', ''material_3_percentage'', ''care_codes'', ''eco_claims'', ''environment_score'']"

text \<open>The two counts of required fields that \<^verbatim>\<open>print_statistics\<close> reports.\<close>

definition missing_upid_sku :: "row list \<Rightarrow> nat" where
  "missing_upid_sku data =
     length (filter (\<lambda>r. \<not> truthy (getitem r ''upid'') \<and> \<not> truthy (getitem r ''sku'')) data)"

definition missing_name :: "row list \<Rightarrow> nat" where
  "missing_name data = length (filter (\<lambda>r. \<not> truthy (getitem r ''product_name'')) data)"

text \<open>
  Standard output is not modelled; what is left of \<^verbatim>\<open>print_statistics\<close> is what can
  raise: the reads \<^verbatim>\<open>row["upid"]\<close>, \<^verbatim>\<open>row["sku"]\<close> (made only when the UPID is
  empty), \<^verbatim>\<open>row["product_name"]\<close>, \<^verbatim>\<open>row["description"]\<close>,
  \<^verbatim>\<open>row["material_1_name"]\<close>, \<^verbatim>\<open>row["care_codes"]\<close> and \<^verbatim>\<open>row["eco_claims"]\<close> of
  every row, and after them the division by \<^verbatim>\<open>len(data)\<close> in the coverage lines.
\<close>

definition has_key :: "row \<Rightarrow> string \<Rightarrow> bool" where
  "has_key r k = (map_of r k \<noteq> None)"

definition statistics_readable :: "row \<Rightarrow> bool" where
  "statistics_readable r =
     (has_key r ''upid'' \<and> (truthy (getitem r ''upid'') \<or> has_key r ''sku'') \<and>
      has_key r ''product_name'' \<and> has_key r ''description'' \<and>
      has_key r ''material_1_name'' \<and> has_key r ''care_codes'' \<and> has_key r ''eco_claims'')"

definition print_statistics :: "row list \<Rightarrow> py_error + unit" where
  "print_statistics data =
     (if list_ex (\<lambda>r. \<not> statistics_readable r) data then Inl KeyError
      else if data = [] then Inl ZeroDivisionError
      else Inr ())"

text \<open>
  The \<^verbatim>\<open>with\<close> block closes the file when an exception passes through it and does
  nothing else: what was written stays.
\<close>

definition write_csv :: "row list \<Rightarrow> string \<Rightarrow> io \<Rightarrow> (py_error + unit) \<times> io" where
  "write_csv data output_file io =
     (case writeheader fieldnames output_file (open_w output_file io) of
        (Inl e, io1) \<Rightarrow> (Inl e, io1)
      | (Inr u, io1) \<Rightarrow>
          (case writerows fieldnames output_file data io1 of
             (Inl e, io2) \<Rightarrow> (Inl e, io2)
           | (Inr u, io2) \<Rightarrow> (print_statistics data, io2)))"

text \<open>
  \<^verbatim>\<open>main\<close> returns the exit status: 2 when \<^verbatim>\<open>argparse\<close> rejects the scenario, 1 for
  a row count below 1 and for any exception of generation or writing, else 0.
\<close>

definition main ::
  "(int \<Rightarrow> rng) \<Rightarrow> (string set \<Rightarrow> string list) \<Rightarrow> rng \<Rightarrow>
   string \<Rightarrow> int \<Rightarrow> string \<Rightarrow> int option \<Rightarrow> io \<Rightarrow> nat \<times> io" where
  "main mt hash_order entropy scenario' rows' output seed' io =
     (if scenario' \<notin> set [''valid'', ''duplicates'', ''missing_fields'', ''invalid_formats'', ''mixed'']
      then (2, io)
      else if rows' < 1 then (1, io)
      else
        (let generator = init mt entropy scenario' rows' seed';
             (data, generator1) = generate hash_order generator
         in case write_csv data output io of
              (Inl e, io1) \<Rightarrow> (1, io1)
            | (Inr u, io1) \<Rightarrow> (0, io1)))"

section \<open>\<^verbatim>\<open>generate_test_csvs.py\<close>\<close>

text \<open>
  The names this script shares with the first one carry the suffix \<open>_csvs\<close>. The
  script never seeds the generator: every function below starts from the state it is
  given, and \<^verbatim>\<open>main\<close> from the state the library took from the operating system.
\<close>

subsection \<open>Tables\<close>

definition NUM_ROWS :: nat where
  "NUM_ROWS = 10000"

definition PRODUCT_TYPES_csvs :: "string list" where
  "PRODUCT_TYPES_csvs =
     [''T-Shirt'', ''Polo Shirt'', ''Tank Top'', ''Hoodie'', ''Sweater'', ''Cardigan'',
      ''Jeans'', ''Pants'', ''Shorts'', ''Joggers'', ''Dress Pants'',
      ''Jacket'', ''Coat'', ''Parka'', ''Blazer'',
      ''Dress'', ''Skirt'', ''Blouse'']"

definition MATERIALS_csvs :: "string list" where
  "MATERIALS_csvs =
     [''Cotton'', ''Polyester'', ''Wool'', ''Silk'', ''Linen'', ''Nylon'',
      ''Cashmere'', ''Leather'', ''Suede'', ''Denim'', ''Fleece'',
      ''Viscose'', ''Elastane'', ''Recycled Polyester'']"

definition STYLES :: "string list" where
  "STYLES =
     [''Classic'', ''Vintage'', ''Modern'', ''Essential'', ''Premium'',
      ''Athletic'', ''Casual'', ''Formal'', ''Heritage'', ''Limited Edition'',
      ''Oversized'', ''Slim Fit'', ''Regular Fit'']"

definition VALID_COLORS :: "string list" where
  "VALID_COLORS = [''Black'', ''White'', ''Navy'', ''Gray'', ''Beige'']"

definition VALID_SIZES :: "string list" where
  "VALID_SIZES = [''XS'', ''S'', ''M'', ''L'', ''XL'']"

definition VALID_CATEGORIES :: "string list" where
  "VALID_CATEGORIES = [''Tops'', ''Bottoms'', ''Outerwear'', ''Dresses'']"

definition UNMAPPED_COLORS :: "string list" where
  "UNMAPPED_COLORS =
     [''Coral'', ''Burgundy'', ''Orange'', ''Pink'', ''Navy Blue'', ''Light Gray'',
      ''Olive Green'', ''Mustard'', ''Teal'', ''Lavender'', ''Crimson'', ''Charcoal'']"

definition UNMAPPED_SIZES :: "string list" where
  "UNMAPPED_SIZES = [''2XL'', ''3XL'', ''XXS'', ''One Size'']"

definition UNMAPPED_CATEGORIES :: "string list" where
  "UNMAPPED_CATEGORIES =
     [''Accessories'', ''Footwear'', ''T-Shirts'', ''Shirts'', ''Activewear'',
      ''Loungewear'', ''Swimwear'', ''Underwear'']"

definition SEASONS_csvs :: "string list" where
  "SEASONS_csvs = [''Spring 2024'', ''Fall 2024'', ''AW24'', ''FW24'', ''SS25'']"

definition CARE_CODES_csvs :: "string list" where
  "CARE_CODES_csvs =
     [''MACHINE_WASH'', ''HAND_WASH'', ''DRY_CLEAN'', ''DO_NOT_BLEACH'',
      ''TUMBLE_DRY'', ''DO_NOT_IRON'', ''IRON_LOW_HEAT'']"

definition ECO_CLAIMS_csvs :: "string list" where
  "ECO_CLAIMS_csvs =
     [''ORGANIC'', ''RECYCLED'', ''FAIR_TRADE'', ''BLUESIGN'', ''OEKO_TEX'',
      ''GOTS_CERTIFIED'', ''CRADLE_TO_CRADLE'']"

definition DESCRIPTIONS :: "string list" where
  "DESCRIPTIONS =
     [''Classic {material} {product} design meets modern comfort. Made from sustainable materials.'',
      ''The perfect {product} for the {season} season. Combines style with functionality.'',
      ''Discover the {style} {product} crafted from premium {material}. Ideal for any occasion.'',
      ''A comfortable and stylish {product} perfect for everyday wear. Made with high-quality {material}.'']"

subsection \<open>Field generators\<close>

definition generate_upid_csvs :: "int \<Rightarrow> string" where
  "generate_upid_csvs index = ''UPID-'' @ str_int (100000 + index)"

definition generate_sku_csvs :: "int \<Rightarrow> rng \<Rightarrow> string \<times> rng" where
  "generate_sku_csvs index g =
     (let (prefix, g1) = choice [''TSH'', ''PNT'', ''JKT'', ''DRS'', ''SHT''] g
      in (''SKU-'' @ prefix @ ''-'' @ str_int (10000 + index), g1))"

definition generate_product_name_csvs :: "rng \<Rightarrow> string \<times> rng" where
  "generate_product_name_csvs g =
     (let (style, g1) = choice STYLES g;
          (material, g2) = choice MATERIALS_csvs g1;
          (product, g3) = choice PRODUCT_TYPES_csvs g2
      in (style @ '' '' @ material @ '' '' @ product, g3))"

definition generate_description_csvs :: "rng \<Rightarrow> string \<times> rng" where
  "generate_description_csvs g =
     (let (template, g1) = choice DESCRIPTIONS g;
          (material, g2) = choice MATERIALS_csvs g1;
          (product, g3) = choice PRODUCT_TYPES_csvs g2;
          (season, g4) = choice [''spring'', ''summer'', ''fall'', ''winter''] g3;
          (style, g5) = choice STYLES g4
      in (format template
            [(''material'', lower material), (''product'', lower product),
             (''season'', season), (''style'', lower style)], g5))"

definition generate_image_url :: "int \<Rightarrow> rng \<Rightarrow> string \<times> rng" where
  "generate_image_url product_id g =
     (let (domain, g1) =
            choice [''cdn.example.com'', ''assets.fashion-brand.com'', ''images.product-store.com''] g
      in (''https://'' @ domain @ ''/products/product-'' @ str_int product_id @ ''.jpg'', g1))"

definition get_base_headers :: "string list" where
  "get_base_headers =
     [''product_name'', ''upid'', ''sku'', ''description'', ''category_name'', ''season'',
      ''primary_image_url'', ''color_name'', ''size_name'', ''product_image_url'',
      ''material_1_name'', ''material_1_percentage'', ''material_2_name'', ''material_2_percentage'',
      ''material_3_name'', ''material_3_percentage'', ''care_codes'', ''eco_claims'', ''environment_score'']"

text \<open>\<^verbatim>\<open>random.random() > t\<close>\<close>

definition draw_gt :: "rat \<Rightarrow> rng \<Rightarrow> bool \<times> rng" where
  "draw_gt t g = (let (r, g1) = random_random g in (t < r, g1))"

definition generate_base_row :: "int \<Rightarrow> bool \<Rightarrow> rng \<Rightarrow> row \<times> rng" where
  "generate_base_row index use_valid_values g =
     (let colors = (if use_valid_values then VALID_COLORS else UNMAPPED_COLORS);
          sizes = (if use_valid_values then VALID_SIZES else UNMAPPED_SIZES);
          categories = (if use_valid_values then VALID_CATEGORIES else UNMAPPED_CATEGORIES);
          (include_description, g1) = draw_gt f_0_3 g;
          (include_category, g2) = draw_gt f_0_2 g1;
          (include_season, g3) = draw_gt f_0_4 g2;
          (include_images, g4) = draw_gt f_0_5 g3;
          (include_color, g5) = draw_gt f_0_2 g4;
          (include_size, g6) = draw_gt f_0_2 g5;
          (include_care, g7) = draw_gt f_0_4 g6;
          (include_eco, g8) = draw_gt f_0_4 g7;
          (include_env_score, g9) = draw_gt f_0_3 g8;
          (product_name, g10) = generate_product_name_csvs g9;
          upid = generate_upid_csvs index;
          (sku, g11) = generate_sku_csvs index g10;
          (description, g12) =
            (if include_description then generate_description_csvs g11 else ([], g11));
          (category, g13) = (if include_category then choice categories g12 else ([], g12));
          (season, g14) = (if include_season then choice SEASONS_csvs g13 else ([], g13));
          (primary_image_url, g15) =
            (if include_images then generate_image_url index g14 else ([], g14));
          (color, g16) = (if include_color then choice colors g15 else ([], g15));
          (size', g17) = (if include_size then choice sizes g16 else ([], g16));
          (second_image, g18) = (if include_images then draw_gt f_0_5 g17 else (False, g17));
          (product_image_url, g19) =
            (if second_image then generate_image_url (index + 1000) g18 else ([], g18));
          (material_1_name, g20) = choice MATERIALS_csvs g19;
          (p1, g21) = choice [100, 95, 80, 70, 60, 50, 40, 35, 30] g20;
          (with_m2, g22) = draw_gt f_0_6 g21;
          (material_2_name, g23) = (if with_m2 then choice MATERIALS_csvs g22 else ([], g22));
          (with_p2, g24) = draw_gt f_0_6 g23;
          (material_2_percentage, g25) =
            (if with_p2 then (let (p2, ga) = choice [20, 15, 10, 5] g24 in (str_int p2, ga))
             else ([], g24));
          (care_codes, g26) =
            (if include_care
             then (let (k, ga) = randint 1 3 g25;
                       (xs, gb) = sample CARE_CODES_csvs (nat k) ga
                   in (join '','' xs, gb))
             else ([], g25));
          (eco_claims, g27) =
            (if include_eco
             then (let (k, ga) = randint 1 3 g26;
                       (xs, gb) = sample ECO_CLAIMS_csvs (nat k) ga
                   in (join '','' xs, gb))
             else ([], g26));
          (environment_score, g28) =
            (if include_env_score then (let (n, ga) = randint 50 100 g27 in (str_int n, ga))
             else ([], g27))
      in ([(''product_name'', PStr product_name),
           (''upid'', PStr upid),
           (''sku'', PStr sku),
           (''description'', PStr description),
           (''category_name'', PStr category),
           (''season'', PStr season),
           (''primary_image_url'', PStr primary_image_url),
           (''color_name'', PStr color),
           (''size_name'', PStr size'),
           (''product_image_url'', PStr product_image_url),
           (''material_1_name'', PStr material_1_name),
           (''material_1_percentage'', PStr (str_int p1)),
           (''material_2_name'', PStr material_2_name),
           (''material_2_percentage'', PStr material_2_percentage),
           (''material_3_name'', PStr []),
           (''material_3_percentage'', PStr []),
           (''care_codes'', PStr care_codes),
           (''eco_claims'', PStr eco_claims),
           (''environment_score'', PStr environment_score)],
          g28))"

subsection \<open>The ten files\<close>

text \<open>
  Every \<^verbatim>\<open>generate_*_csv\<close> has the same shape: open the file for writing, write the
  header, and for each \<^verbatim>\<open>i\<close> in \<^verbatim>\<open>range(NUM_ROWS)\<close> build a row and write it at
  once. \<open>write_each\<close> is that loop, with the row maker of the file as argument; an
  exception leaves the loop with the file as it is.
\<close>

fun write_each ::
  "string list \<Rightarrow> string \<Rightarrow> (int \<Rightarrow> rng \<Rightarrow> row \<times> rng) \<Rightarrow> nat list \<Rightarrow> rng \<Rightarrow> io \<Rightarrow>
   (py_error + unit) \<times> rng \<times> io" where
  "write_each headers name mk_row [] g io = (Inr (), g, io)"
| "write_each headers name mk_row (i # is) g io =
     (let (r, g1) = mk_row (int i) g
      in case writerow headers name r io of
           (Inl e, io1) \<Rightarrow> (Inl e, g1, io1)
         | (Inr u, io1) \<Rightarrow> write_each headers name mk_row is g1 io1)"

definition generate_csv ::
  "string \<Rightarrow> string list \<Rightarrow> (int \<Rightarrow> rng \<Rightarrow> row \<times> rng) \<Rightarrow> nat \<Rightarrow> rng \<Rightarrow> io \<Rightarrow>
   (py_error + unit) \<times> rng \<times> io" where
  "generate_csv name headers mk_row n g io =
     (case writeheader headers name (open_w name io) of
        (Inl e, io1) \<Rightarrow> (Inl e, g, io1)
      | (Inr u, io1) \<Rightarrow> write_each headers name mk_row [0..<n] g io1)"

definition generate_valid_csv :: "rng \<Rightarrow> io \<Rightarrow> (py_error + unit) \<times> rng \<times> io" where
  "generate_valid_csv =
     generate_csv ''test-01-valid-data.csv'' get_base_headers
       (\<lambda>i. generate_base_row i True) NUM_ROWS"

text \<open>Every 100th row takes the UPID of the row 50 before it, and a new SKU.\<close>

definition duplicates_row :: "int \<Rightarrow> rng \<Rightarrow> row \<times> rng" where
  "duplicates_row i g =
     (let (r, g1) = generate_base_row i True g
      in if 0 < i \<and> i mod 100 = 0 then
           (let r1 = setitem r ''upid'' (PStr (generate_upid_csvs (i - 50)));
                (sku, g2) = generate_sku_csvs i g1
            in (setitem r1 ''sku'' (PStr sku), g2))
         else (r, g1))"

definition generate_duplicates_csv :: "rng \<Rightarrow> io \<Rightarrow> (py_error + unit) \<times> rng \<times> io" where
  "generate_duplicates_csv =
     generate_csv ''test-02-duplicates.csv'' get_base_headers duplicates_row NUM_ROWS"

definition generate_unmapped_csv :: "rng \<Rightarrow> io \<Rightarrow> (py_error + unit) \<times> rng \<times> io" where
  "generate_unmapped_csv =
     generate_csv ''test-03-unmapped-values.csv'' get_base_headers
       (\<lambda>i. generate_base_row i False) NUM_ROWS"

definition missing_required_row :: "int \<Rightarrow> rng \<Rightarrow> row \<times> rng" where
  "missing_required_row i g =
     (let (r, g1) = generate_base_row i True g
      in if i mod 5 = 0 then
           (let error_type = i mod 3
            in if error_type = 0 then (setitem r ''product_name'' (PStr []), g1)
               else if error_type = 1
               then (setitem (setitem r ''upid'' (PStr [])) ''sku'' (PStr []), g1)
               else if error_type = 2 then (setitem r ''upid'' (PStr []), g1)
               else (r, g1))
         else (r, g1))"

definition generate_missing_required_csv :: "rng \<Rightarrow> io \<Rightarrow> (py_error + unit) \<times> rng \<times> io" where
  "generate_missing_required_csv =
     generate_csv ''test-04-missing-required.csv'' get_base_headers missing_required_row NUM_ROWS"

definition field_length_row :: "int \<Rightarrow> rng \<Rightarrow> row \<times> rng" where
  "field_length_row i g =
     (let (r, g1) = generate_base_row i True g
      in if i mod 10 = 0 then
           (if i mod 20 = 0 then (setitem r ''product_name'' (PStr (replicate 150 CHR ''A'')), g1)
            else (setitem r ''description'' (PStr (replicate 2500 CHR ''B'')), g1))
         else (r, g1))"

definition generate_field_length_violations_csv ::
  "rng \<Rightarrow> io \<Rightarrow> (py_error + unit) \<times> rng \<times> io" where
  "generate_field_length_violations_csv =
     generate_csv ''test-05-field-length-violations.csv'' get_base_headers field_length_row NUM_ROWS"

definition wrong_headers :: "string list" where
  "wrong_headers =
     [''ProductName'', ''UPID'', ''SKU'', ''Description'', ''Category'', ''Season'',
      ''PrimaryImage'', ''ColorName'', ''SizeName'', ''ProductImage'',
      ''Material1'', ''Material1Pct'', ''Material2'', ''Material2Pct'',
      ''Material3'', ''Material3Pct'', ''CareCodes'', ''EcoClaims'', ''EnvScore'']"

text \<open>
  \<^verbatim>\<open>{wrong: row[correct] for wrong, correct in zip(wrong_headers, correct_headers)}\<close>
\<close>

definition wrong_headers_row :: "int \<Rightarrow> rng \<Rightarrow> row \<times> rng" where
  "wrong_headers_row i g =
     (let (r, g1) = generate_base_row i True g
      in (map (\<lambda>(wrong, correct). (wrong, getitem r correct)) (zip wrong_headers get_base_headers), g1))"

definition generate_wrong_headers_csv :: "rng \<Rightarrow> io \<Rightarrow> (py_error + unit) \<times> rng \<times> io" where
  "generate_wrong_headers_csv =
     generate_csv ''test-06-wrong-headers.csv'' wrong_headers wrong_headers_row NUM_ROWS"

definition mixed_errors_row :: "int \<Rightarrow> rng \<Rightarrow> row \<times> rng" where
  "mixed_errors_row i g =
     (let (use_valid, g1) = draw_gt f_0_5 g;
          (r, g2) = generate_base_row i use_valid g1;
          (error_roll, g3) = random_random g2
      in if error_roll < f_0_05 then
           (if 100 < i
            then (let (back, g4) = randint 50 100 g3
                  in (setitem r ''upid'' (PStr (generate_upid_csvs (i - back))), g4))
            else (r, g3))
         else if error_roll < f_0_1 then
           (let (name, g4) = draw_gt f_0_5 g3
            in if name then (setitem r ''product_name'' (PStr []), g4)
               else (setitem (setitem r ''upid'' (PStr [])) ''sku'' (PStr []), g4))
         else if error_roll < f_0_12 then
           (let (name, g4) = draw_gt f_0_5 g3
            in if name then (setitem r ''product_name'' (PStr (replicate 150 CHR ''X'')), g4)
               else (setitem r ''description'' (PStr (replicate 2500 CHR ''Y'')), g4))
         else (r, g3))"

definition generate_mixed_errors_csv :: "rng \<Rightarrow> io \<Rightarrow> (py_error + unit) \<times> rng \<times> io" where
  "generate_mixed_errors_csv =
     generate_csv ''test-07-mixed-errors.csv'' get_base_headers mixed_errors_row NUM_ROWS"

text \<open>\<^verbatim>\<open>row = {header: '' for header in headers}\<close>, then five assignments.\<close>

definition minimal_row :: "int \<Rightarrow> rng \<Rightarrow> row \<times> rng" where
  "minimal_row i g =
     (let r0 = map (\<lambda>header. (header, PStr [])) get_base_headers;
          (name, g1) = generate_product_name_csvs g;
          r1 = setitem r0 ''product_name'' (PStr name);
          r2 = setitem r1 ''upid'' (PStr (generate_upid_csvs i));
          (sku, g2) = generate_sku_csvs i g1;
          r3 = setitem r2 ''sku'' (PStr sku);
          (material, g3) = choice MATERIALS_csvs g2;
          r4 = setitem r3 ''material_1_name'' (PStr material)
      in (setitem r4 ''material_1_percentage'' (PStr ''100''), g3))"

definition generate_minimal_csv :: "rng \<Rightarrow> io \<Rightarrow> (py_error + unit) \<times> rng \<times> io" where
  "generate_minimal_csv =
     generate_csv ''test-08-minimal-required.csv'' get_base_headers minimal_row NUM_ROWS"

definition generate_empty_csv :: "rng \<Rightarrow> io \<Rightarrow> (py_error + unit) \<times> rng \<times> io" where
  "generate_empty_csv g io =
     (case writeheader get_base_headers ''test-09-empty.csv'' (open_w ''test-09-empty.csv'' io) of
        (e, io1) \<Rightarrow> (e, g, io1))"

definition large_mixed_row :: "int \<Rightarrow> rng \<Rightarrow> row \<times> rng" where
  "large_mixed_row i g =
     (let (r, g1) = random_random g in generate_base_row i (r < f_0_3) g1)"

definition generate_large_mixed_csv :: "rng \<Rightarrow> io \<Rightarrow> (py_error + unit) \<times> rng \<times> io" where
  "generate_large_mixed_csv =
     generate_csv ''test-10-large-mixed.csv'' get_base_headers large_mixed_row NUM_ROWS"

text \<open>
  \<^verbatim>\<open>main\<close> of this script calls the ten in order and catches nothing: the first
  exception ends the run.
\<close>

fun run_all ::
  "(rng \<Rightarrow> io \<Rightarrow> (py_error + unit) \<times> rng \<times> io) list \<Rightarrow> rng \<Rightarrow> io \<Rightarrow> (py_error + unit) \<times> rng \<times> io" where
  "run_all [] g io = (Inr (), g, io)"
| "run_all (f # fs) g io =
     (case f g io of
        (Inl e, g1, io1) \<Rightarrow> (Inl e, g1, io1)
      | (Inr u, g1, io1) \<Rightarrow> run_all fs g1 io1)"

definition main_csvs :: "rng \<Rightarrow> io \<Rightarrow> (py_error + unit) \<times> rng \<times> io" where
  "main_csvs =
     run_all
       [generate_valid_csv, generate_duplicates_csv, generate_unmapped_csv,
        generate_missing_required_csv, generate_field_length_violations_csv,
        generate_wrong_headers_csv, generate_mixed_errors_csv, generate_minimal_csv,
        generate_empty_csv, generate_large_mixed_csv]"

section \<open>The rows of a loop\<close>

text \<open>
  The rows that the loop of a \<^verbatim>\<open>generate_*_csv\<close> builds, in order, when no write
  fails: \<open>write_each\<close> without the file.
\<close>

fun rows_of :: "(int \<Rightarrow> rng \<Rightarrow> row \<times> rng) \<Rightarrow> nat list \<Rightarrow> rng \<Rightarrow> row list" where
  "rows_of mk_row [] g = []"
| "rows_of mk_row (i # is) g = (let (r, g1) = mk_row (int i) g in r # rows_of mk_row is g1)"

text \<open>The record that \<^verbatim>\<open>DictWriter\<close> writes for a row.\<close>

definition record_of :: "string list \<Rightarrow> row \<Rightarrow> string list" where
  "record_of headers r = map (\<lambda>k. case map_of r k of Some v \<Rightarrow> str_cell v | None \<Rightarrow> []) headers"

text \<open>
  What a device of capacity \<open>cap\<close> lets through of a sequence of records: all of them,
  or the first \<open>k\<close>; whether it lets all of them through; and the capacity left after
  \<open>n\<close> records.
\<close>

definition accepted :: "nat option \<Rightarrow> 'a list \<Rightarrow> 'a list" where
  "accepted cap recs = (case cap of None \<Rightarrow> recs | Some k \<Rightarrow> take k recs)"

definition fits :: "nat option \<Rightarrow> 'a list \<Rightarrow> bool" where
  "fits cap recs = (case cap of None \<Rightarrow> True | Some k \<Rightarrow> length recs \<le> k)"

definition remaining :: "nat option \<Rightarrow> nat \<Rightarrow> nat option" where
  "remaining cap n = (case cap of None \<Rightarrow> None | Some k \<Rightarrow> Some (k - n))"

section \<open>Concrete parameters for the examples\<close>

text \<open>
  The examples below need a concrete process: one whose string hashes happen to
  enumerate a set alphabetically, and a stand-in for \<^verbatim>\<open>random.seed\<close> under which the
  generator seeded with \<open>s\<close> draws the raw values \<open>c + s\<close>, \<open>c + s + 1\<close>, \<dots> with
  \<open>c = 3 * 2^51\<close>: every \<^verbatim>\<open>random()\<close> of such a generator is just above 0.75, so
  that its rows leave the optional fields out.
\<close>

definition alphabetical :: "string set \<Rightarrow> string list" where
  "alphabetical S = sorted_list_of_set S"

text \<open>Another process, whose hashes enumerate a set in the opposite order.\<close>

definition reverse_alphabetical :: "string set \<Rightarrow> string list" where
  "reverse_alphabetical S = rev (sorted_list_of_set S)"

definition counting_seed :: "int \<Rightarrow> rng" where
  "counting_seed s = fromN (6755399441055744 + nat s)"

text \<open>The stream that counts up from \<open>k\<close> for \<open>m\<close> draws and goes on as \<open>s\<close>.\<close>

primrec counting_then :: "nat \<Rightarrow> nat \<Rightarrow> rng \<Rightarrow> rng" where
  "counting_then k 0 s = s"
| "counting_then k (Suc m) s = k ## counting_then (Suc k) m s"

section \<open>Evaluation rules\<close>

text \<open>
  Recursive equations restricted to numerals, so that the simplifier evaluates closed
  terms with them and leaves open ones alone.
\<close>

lemma str_nat_numeral:
  "str_nat (numeral k) =
     (if (numeral k :: nat) < 10 then [digit_char (numeral k)]
      else str_nat (numeral k div 10) @ [digit_char (numeral k mod 10)])"
  by (rule str_nat.simps)

lemma str_nat_0: "str_nat 0 = ''0''"
  by (simp add: str_nat.simps digit_char_def)

lemma str_nat_1: "str_nat (Suc 0) = ''1''"
  by (simp add: str_nat.simps digit_char_def)

lemma sample_from_numeral:
  "sample_from pool m (numeral k) g =
     (let (j, g1) = randbelow m g;
          (rest, g2) = sample_from (pool[j := pool ! (m - 1)]) (m - 1) (pred_numeral k) g1
      in (pool ! j # rest, g2))"
  by (simp add: numeral_eq_Suc)

lemma list_update_numeral: "(x # xs)[numeral k := y] = x # xs[pred_numeral k := y]"
  by (simp add: numeral_eq_Suc)

lemma counting_then_numeral:
  "counting_then k (numeral m) s = k ## counting_then (Suc k) (pred_numeral m) s"
  by (simp add: numeral_eq_Suc)

lemma pad_materials_Cons:
  "pad_materials (x # xs) ps =
     (if length (x # xs) < 3 then pad_materials ((x # xs) @ [PStr []]) (ps @ [PStr []])
      else (x # xs, ps))"
  by (rule pad_materials.simps)

lemmas rng_defs = random_random_def randbelow_def randint_def choice_def sample_def

lemmas f_defs =
  f_0_05_def f_0_1_def f_0_12_def f_0_15_def f_0_2_def f_0_3_def f_0_4_def f_0_5_def
  f_0_6_def f_0_7_def

lemmas tbl_defs =
  PRODUCT_TYPES_def PRODUCT_STYLES_def PRODUCT_MATERIALS_PRIMARY_def COLORS_def SIZES_def
  CATEGORIES_def SEASONS_def MATERIALS_def CARE_CODES_def ECO_CLAIMS_def
  description_templates_def

lemmas str_defs =
  str_int_def format_06d_def str_nat_numeral str_nat_0 str_nat_1 digit_char_def lower_def
  lower_char_def format_def

lemmas py_defs = is_tuple_def py_len_def item_def int_of_def truthy_def getitem_def str_cell_def

lemmas gen_defs =
  generate_upid_def generate_sku_def generate_product_name_def generate_description_def
  generate_url_def generate_materials_def disposition_def and_draw_def row_identifiers_def
  row_product_name_def row_optional_def row_materials_def row_extras_def generate_row_def
  pad_materials_Cons generate_def init_def

lemmas ev =
  rng_defs f_defs tbl_defs str_defs py_defs gen_defs sample_from_numeral list_update_numeral
  Let_def

section \<open>Draws and thresholds\<close>

lemma frac_lt_nat:
  fixes k c d e :: nat
  assumes "0 < d" "0 < e"
  shows "((of_nat k :: rat) / of_nat d < of_nat c / of_nat e) = (k * e < c * d)"
proof -
  have "((of_nat k :: rat) / of_nat d < of_nat c / of_nat e) =
        ((of_nat k :: rat) * of_nat e < of_nat c * of_nat d)"
    using assms by (simp add: field_simps)
  also have "\<dots> = ((of_nat (k * e) :: rat) < of_nat (c * d))"
    by (simp only: of_nat_mult)
  also have "\<dots> = (k * e < c * d)"
    by (simp only: of_nat_less_iff)
  finally show ?thesis .
qed

text \<open>
  A draw \<open>k / 2^53\<close> is below the double \<^verbatim>\<open>0.2\<close> exactly when it is below one fifth,
  and below the double \<^verbatim>\<open>0.1\<close> exactly when it is below one tenth.
\<close>

lemma lt_f_0_2: "((of_nat k :: rat) / 2 ^ 53 < f_0_2) = (k \<le> 1801439850948198)"
proof -
  have "((of_nat k :: rat) / of_nat (2 ^ 53) < of_nat 3602879701896397 / of_nat (2 ^ 54)) =
        (k * 2 ^ 54 < 3602879701896397 * 2 ^ 53)"
    by (rule frac_lt_nat) simp_all
  moreover have "(k * 2 ^ 54 < 3602879701896397 * 2 ^ (53::nat)) = (k \<le> (1801439850948198::nat))"
    by simp arith
  ultimately show ?thesis by (simp add: f_0_2_def)
qed

lemma lt_fifth: "((of_nat k :: rat) / 2 ^ 53 < 1 / 5) = (k \<le> 1801439850948198)"
proof -
  have "((of_nat k :: rat) / of_nat (2 ^ 53) < of_nat 1 / of_nat 5) = (k * 5 < 1 * 2 ^ 53)"
    by (rule frac_lt_nat) simp_all
  moreover have "(k * 5 < 1 * 2 ^ (53::nat)) = (k \<le> (1801439850948198::nat))"
    by simp arith
  ultimately show ?thesis by simp
qed

lemma lt_f_0_1: "((of_nat k :: rat) / 2 ^ 53 < f_0_1) = (k \<le> 900719925474099)"
proof -
  have "((of_nat k :: rat) / of_nat (2 ^ 53) < of_nat 3602879701896397 / of_nat (2 ^ 55)) =
        (k * 2 ^ 55 < 3602879701896397 * 2 ^ 53)"
    by (rule frac_lt_nat) simp_all
  moreover have "(k * 2 ^ 55 < 3602879701896397 * 2 ^ (53::nat)) = (k \<le> (900719925474099::nat))"
    by simp arith
  ultimately show ?thesis by (simp add: f_0_1_def)
qed

lemma lt_tenth: "((of_nat k :: rat) / 2 ^ 53 < 1 / 10) = (k \<le> 900719925474099)"
proof -
  have "((of_nat k :: rat) / of_nat (2 ^ 53) < of_nat 1 / of_nat 10) = (k * 10 < 1 * 2 ^ 53)"
    by (rule frac_lt_nat) simp_all
  moreover have "(k * 10 < 1 * 2 ^ (53::nat)) = (k \<le> (900719925474099::nat))"
    by simp arith
  ultimately show ?thesis by simp
qed

section \<open>The error disposition of a row\<close>

text \<open>
  C4. The decision \<^verbatim>\<open>should_have_error\<close> and the error kind, scenario by scenario:
  for \<^verbatim>\<open>duplicates\<close> the decision is \<open>row_number > 10\<close> and the kind
  \<^verbatim>\<open>duplicate\<close>, with no draw; for \<^verbatim>\<open>missing_fields\<close> and \<^verbatim>\<open>invalid_formats\<close> the
  decision is that one draw is below 0.2, the kinds \<^verbatim>\<open>missing\<close> and \<^verbatim>\<open>invalid\<close>; for
  \<^verbatim>\<open>mixed\<close> the decision is that one draw is below 0.1 and the kind is the element of
  the three-element list at a second draw below 3. The comparisons with the doubles
  0.2 and 0.1 agree on every draw with those against 1/5 and 1/10.
\<close>

theorem disposition_by_scenario:
  "disposition ''duplicates'' n g = ((10 < n, Some ''duplicate''), g) \<and>
   disposition ''missing_fields'' n g = ((fst (random_random g) < f_0_2, Some ''missing''), stl g) \<and>
   disposition ''invalid_formats'' n g = ((fst (random_random g) < f_0_2, Some ''invalid''), stl g) \<and>
   disposition ''mixed'' n g =
     ((fst (random_random g) < f_0_1,
       Some ([''duplicate'', ''missing'', ''invalid''] ! (shd (stl g) mod 3))), stl (stl g)) \<and>
   disposition ''valid'' n g = ((False, None), g) \<and>
   (fst (random_random g) < f_0_2) = (fst (random_random g) < 1 / 5) \<and>
   (fst (random_random g) < f_0_1) = (fst (random_random g) < 1 / 10)"
proof -
  have "(fst (random_random g) < f_0_2) = (fst (random_random g) < 1 / 5)"
    unfolding random_random_def fst_conv by (simp only: lt_f_0_2 lt_fifth)
  moreover have "(fst (random_random g) < f_0_1) = (fst (random_random g) < 1 / 10)"
    unfolding random_random_def fst_conv by (simp only: lt_f_0_1 lt_tenth)
  moreover have "disposition ''mixed'' n g =
     ((fst (random_random g) < f_0_1,
       Some ([''duplicate'', ''missing'', ''invalid''] ! (shd (stl g) mod 3))), stl (stl g))"
    by (simp add: disposition_def random_random_def choice_def randbelow_def)
  ultimately show ?thesis
    by (simp add: disposition_def random_random_def)
qed

section \<open>The seed\<close>

text \<open>
  C9. A generator constructed with seed 0 is the generator constructed with no seed:
  its seed is a draw between 1 and 1000000 from the unseeded global generator, and the
  generator state is the one of that seed. With the stand-in seeding function, two
  processes that differ in that draw produce different rows for the same scenario,
  row count and seed 0.
\<close>

theorem seed_zero_is_no_seed:
  "init mt entropy sc n (Some 0) = init mt entropy sc n None \<and>
   seed (init mt entropy sc n (Some 0)) = 1 + int (shd entropy mod 1000000) \<and>
   random_state (init mt entropy sc n (Some 0)) = mt (1 + int (shd entropy mod 1000000)) \<and>
   fst (generate alphabetical (init counting_seed (sconst 0) ''valid'' 1 (Some 0))) \<noteq>
   fst (generate alphabetical (init counting_seed (sconst 1) ''valid'' 1 (Some 0)))"
proof -
  have a: "map (\<lambda>r. getitem r ''upid'')
             (fst (generate alphabetical (init counting_seed (sconst 0) ''valid'' 1 (Some 0)))) =
           [PStr ''UPID-955745'']"
    by (simp add: ev counting_seed_def cong: let_weak_cong prod.case_cong_weak)
  have b: "map (\<lambda>r. getitem r ''upid'')
             (fst (generate alphabetical (init counting_seed (sconst 1) ''valid'' 1 (Some 0)))) =
           [PStr ''UPID-955746'']"
    by (simp add: ev counting_seed_def cong: let_weak_cong prod.case_cong_weak)
  have d: "fst (generate alphabetical (init counting_seed (sconst 0) ''valid'' 1 (Some 0))) \<noteq>
   fst (generate alphabetical (init counting_seed (sconst 1) ''valid'' 1 (Some 0)))"
    using a b by auto
  have c1: "init mt entropy sc n (Some 0) = init mt entropy sc n None"
    by (simp add: init_def)
  have c2: "seed (init mt entropy sc n (Some 0)) = 1 + int (shd entropy mod 1000000)"
    by (simp add: init_def randint_def randbelow_def Let_def)
  have c3: "random_state (init mt entropy sc n (Some 0)) = mt (1 + int (shd entropy mod 1000000))"
    by (simp add: init_def randint_def randbelow_def Let_def)
  show ?thesis
    by (rule conjI [OF c1 conjI [OF c2 conjI [OF c3 d]]])
qed

section \<open>Material composition\<close>

lemma MATERIALS_pairs: "list_all (\<lambda>m. is_tuple m \<and> py_len m = 2) MATERIALS"
  by (simp add: MATERIALS_def is_tuple_def py_len_def)

lemma length_MATERIALS: "length MATERIALS = 18"
  by (simp add: MATERIALS_def)

text \<open>
  C10. Every entry of \<^verbatim>\<open>MATERIALS\<close> is a tuple of length two, so a call of
  \<^verbatim>\<open>generate_materials\<close> with \<^verbatim>\<open>invalid=False\<close> returns the first branch for every
  generator state: one material name and one percentage, the two components of the
  chosen entry. The normalising branch is never taken.
\<close>

theorem materials_single_entry:
  "list_all (\<lambda>m. is_tuple m \<and> py_len m = 2) MATERIALS \<and>
   generate_materials False g =
     (([item (MATERIALS ! (shd g mod 18)) 0], [item (MATERIALS ! (shd g mod 18)) 1]), stl g) \<and>
   length (fst (fst (generate_materials False g))) = 1 \<and>
   length (snd (fst (generate_materials False g))) = 1"
proof -
  have "shd g mod 18 < length MATERIALS"
    by (simp add: length_MATERIALS)
  then have "is_tuple (MATERIALS ! (shd g mod 18)) \<and> py_len (MATERIALS ! (shd g mod 18)) = 2"
    using MATERIALS_pairs by (simp add: list_all_length)
  then have "generate_materials False g =
     (([item (MATERIALS ! (shd g mod 18)) 0], [item (MATERIALS ! (shd g mod 18)) 1]), stl g)"
    by (simp add: generate_materials_def choice_def randbelow_def length_MATERIALS)
  then show ?thesis
    using MATERIALS_pairs by simp
qed

theorem materials_single_entry_witness:
  "generate_materials False (sconst 7) = (([PStr ''Polyester''], [PInt 35]), sconst 7)"
  using materials_single_entry [of "sconst 7"]
  by (simp add: MATERIALS_def item_def)

section \<open>The keys of a row\<close>

lemma generate_row_keys: "map fst (fst (generate_row ho n self)) = fieldnames"
  by (simp add: generate_row_def fieldnames_def Let_def split: prod.splits split del: if_split)

lemma base_row_keys: "map fst (fst (generate_base_row i v g)) = get_base_headers"
  by (simp add: generate_base_row_def get_base_headers_def Let_def
      split: prod.splits split del: if_split)

lemma setitem_keys: "k \<in> set (map fst r) \<Longrightarrow> map fst (setitem r k v) = map fst r"
  by (induction r) force+

lemma generate_rows_keys:
  "list_all (\<lambda>r. map fst r = fieldnames) (fst (generate_rows ho is self))"
  by (induction "is" arbitrary: self) (simp_all add: split_beta Let_def generate_row_keys)

lemma getitem_keys: "distinct (map fst r) \<Longrightarrow> map (getitem r) (map fst r) = map snd r"
proof (induction r)
  case Nil
  then show ?case by simp
next
  case (Cons kv r)
  have "map (getitem (kv # r)) (map fst r) = map (getitem r) (map fst r)"
    using Cons.prems by (cases kv) (auto simp: getitem_def)
  then show ?case
    using Cons by (cases kv) (simp add: getitem_def)
qed

lemma map_snd_zip_with:
  "length xs = length ys \<Longrightarrow> map snd (map (\<lambda>(w, c). (w, f c)) (zip xs ys)) = map f ys"
  by (induction xs ys rule: list_induct2) simp_all

lemma wrong_headers_values:
  "map snd (fst (wrong_headers_row i g)) = map snd (fst (generate_base_row i True g))"
proof -
  define r where "r = fst (generate_base_row i True g)"
  have keys: "map fst r = get_base_headers"
    by (simp add: r_def base_row_keys)
  have "length wrong_headers = length get_base_headers"
    by (simp add: wrong_headers_def get_base_headers_def)
  then have "map snd (map (\<lambda>(wrong, correct). (wrong, getitem r correct))
               (zip wrong_headers get_base_headers)) = map (getitem r) get_base_headers"
    by (rule map_snd_zip_with)
  moreover have "map (getitem r) (map fst r) = map snd r"
    by (rule getitem_keys) (simp add: keys get_base_headers_def)
  ultimately have "map snd (map (\<lambda>(wrong, correct). (wrong, getitem r correct))
               (zip wrong_headers get_base_headers)) = map snd r"
    by (simp add: keys)
  then show ?thesis
    by (simp add: wrong_headers_row_def split_beta r_def)
qed

text \<open>
  C8. Every row that \<^verbatim>\<open>generate_row\<close> returns, for every scenario string, row number
  and generator state, has exactly the nineteen keys \<^verbatim>\<open>product_name\<close> \<dots>
  \<^verbatim>\<open>environment_score\<close>, in that order, and so has every row of a run. The same holds
  for \<^verbatim>\<open>generate_base_row\<close> and for the rows of the second script's files that adjust
  or build one; the wrong-headers file writes the nineteen values of such a row under
  its renamed headers.
\<close>

theorem rows_have_nineteen_keys:
  "map fst (fst (generate_row ho n self)) = fieldnames \<and>
   list_all (\<lambda>r. map fst r = fieldnames) (fst (generate ho self)) \<and>
   length fieldnames = 19 \<and> distinct fieldnames \<and> get_base_headers = fieldnames \<and>
   map fst (fst (generate_base_row i v g)) = fieldnames \<and>
   map fst (fst (duplicates_row i g)) = fieldnames \<and>
   map fst (fst (missing_required_row i g)) = fieldnames \<and>
   map fst (fst (field_length_row i g)) = fieldnames \<and>
   map fst (fst (mixed_errors_row i g)) = fieldnames \<and>
   map fst (fst (minimal_row i g)) = fieldnames \<and>
   map fst (fst (large_mixed_row i g)) = fieldnames \<and>
   map snd (fst (wrong_headers_row i g)) = map snd (fst (generate_base_row i True g))"
proof -
  have h: "get_base_headers = fieldnames"
    by (simp add: get_base_headers_def fieldnames_def)
  have k: "map fst (fst (generate_base_row j w g')) = fieldnames" for j w g'
    by (simp add: base_row_keys h)
  have s: "k \<in> set fieldnames \<Longrightarrow> map fst r = fieldnames \<Longrightarrow> map fst (setitem r k x) = fieldnames"
    for k r x
    by (simp add: setitem_keys)
  have u: "''upid'' \<in> set fieldnames" "''sku'' \<in> set fieldnames"
    "''product_name'' \<in> set fieldnames" "''description'' \<in> set fieldnames"
    "''material_1_name'' \<in> set fieldnames" "''material_1_percentage'' \<in> set fieldnames"
    by (simp_all add: fieldnames_def)
  have 1: "map fst (fst (duplicates_row i g)) = fieldnames"
    by (simp add: duplicates_row_def split_beta Let_def k s u)
  have 2: "map fst (fst (missing_required_row i g)) = fieldnames"
    by (simp add: missing_required_row_def split_beta Let_def k s u)
  have 3: "map fst (fst (field_length_row i g)) = fieldnames"
    by (simp add: field_length_row_def split_beta Let_def k s u)
  have 4: "map fst (fst (mixed_errors_row i g)) = fieldnames"
    by (simp add: mixed_errors_row_def split_beta Let_def k s u)
  have "map fst (map (\<lambda>header. (header, PStr [])) get_base_headers) = fieldnames"
    by (simp add: h comp_def)
  then have 5: "map fst (fst (minimal_row i g)) = fieldnames"
    by (simp add: minimal_row_def split_beta Let_def s u)
  have 6: "map fst (fst (large_mixed_row i g)) = fieldnames"
    by (simp add: large_mixed_row_def split_beta k)
  have 7: "length fieldnames = 19 \<and> distinct fieldnames"
    by (simp add: fieldnames_def)
  show ?thesis
    using 1 2 3 4 5 6 7 h k [of i v g] generate_row_keys [of ho n self]
      generate_rows_keys [of ho "[0..<nat (rows self)]" self] wrong_headers_values [of i g]
    by (simp only: generate_def simp_thms)
qed

section \<open>Required fields in the valid scenario\<close>

lemma scenario_generate_upid: "scenario (snd (generate_upid ho a self)) = scenario self"
  by (simp add: generate_upid_def Let_def split: prod.splits)

lemma scenario_generate_sku: "scenario (snd (generate_sku ho a self)) = scenario self"
  by (simp add: generate_sku_def Let_def split: prod.splits)

lemma scenario_row_identifiers: "scenario (snd (row_identifiers ho e self)) = scenario self"
  by (simp add: row_identifiers_def Let_def split_beta scenario_generate_upid scenario_generate_sku)

lemma scenario_generate_row: "scenario (snd (generate_row ho n self)) = scenario self"
  by (simp add: generate_row_def Let_def split_beta scenario_row_identifiers)

lemma length_generate_rows: "length (fst (generate_rows ho is self)) = length is"
  by (induction "is" arbitrary: self) (simp_all add: split_beta Let_def)

lemma upid_nonempty: "fst (generate_upid ho False self) \<noteq> []"
  by (simp add: generate_upid_def Let_def split: prod.splits)

lemma choice_pred: "xs \<noteq> [] \<Longrightarrow> list_all P xs \<Longrightarrow> P (fst (choice xs g))"
  by (simp add: choice_def randbelow_def list_all_length)

lemma product_name_nonempty: "fst (generate_product_name False g) \<noteq> []"
proof -
  have "list_all (\<lambda>s. s \<noteq> []) PRODUCT_TYPES"
    by (simp add: PRODUCT_TYPES_def)
  then have p: "fst (choice PRODUCT_TYPES g') \<noteq> []" for g'
    by (rule choice_pred [rotated]) (simp add: PRODUCT_TYPES_def)
  show ?thesis
    unfolding generate_product_name_def
    by (simp add: Let_def split_beta) (rule choice_pred, simp, simp add: p)
qed

text \<open>
  In the valid scenario no error kind is set: the identifiers are fresh ones and the
  name is a composed one.
\<close>

lemma row_valid:
  "scenario self = ''valid'' \<Longrightarrow>
   getitem (fst (generate_row ho n self)) ''upid'' = PStr (fst (generate_upid ho False self)) \<and>
   getitem (fst (generate_row ho n self)) ''product_name'' =
     PStr (fst (generate_product_name False (random_state (snd (row_identifiers ho None self)))))"
  by (simp add: generate_row_def disposition_def and_draw_def row_identifiers_def
      row_product_name_def getitem_def Let_def split_beta)

lemma generate_rows_valid:
  "scenario self = ''valid'' \<Longrightarrow>
   list_all (\<lambda>r. truthy (getitem r ''upid'') \<and> truthy (getitem r ''product_name''))
     (fst (generate_rows ho is self))"
proof (induction "is" arbitrary: self)
  case Nil
  then show ?case by simp
next
  case (Cons i "is")
  have "scenario (snd (generate_row ho (int i + 1) self)) = ''valid''"
    using Cons.prems by (simp add: scenario_generate_row)
  from Cons.IH [OF this] row_valid [OF Cons.prems, of ho "int i + 1"]
  show ?case
    by (simp add: split_beta Let_def truthy_def upid_nonempty product_name_nonempty)
qed

lemma none_fail: "list_all P xs \<Longrightarrow> length (filter (\<lambda>x. \<not> P x) xs) = 0"
  by (induction xs) auto

lemma product_name_csvs_nonempty: "fst (generate_product_name_csvs g) \<noteq> []"
  by (simp add: generate_product_name_csvs_def Let_def split_beta)

lemma base_row_shape:
  "\<exists>g1 rest g2. generate_base_row i v g =
      ((''product_name'', PStr (fst (generate_product_name_csvs g1))) #
       (''upid'', PStr (generate_upid_csvs i)) # rest, g2)"
  by (simp add: generate_base_row_def Let_def split: prod.splits split del: if_split)
    (metis fst_conv)

lemma base_row_required:
  "getitem (fst (generate_base_row i v g)) ''upid'' = PStr (generate_upid_csvs i) \<and>
   truthy (getitem (fst (generate_base_row i v g)) ''product_name'')"
proof -
  obtain g1 rest g2 where "generate_base_row i v g =
      ((''product_name'', PStr (fst (generate_product_name_csvs g1))) #
       (''upid'', PStr (generate_upid_csvs i)) # rest, g2)"
    using base_row_shape by blast
  then show ?thesis
    by (simp add: getitem_def truthy_def product_name_csvs_nonempty)
qed

lemma rows_of_all: "(\<And>i g. P (fst (mk_row i g))) \<Longrightarrow> list_all P (rows_of mk_row is g)"
  by (induction "is" arbitrary: g) (simp_all add: split_beta Let_def)

text \<open>
  C3. In the valid scenario, for every generator state (every seed) and every row
  count, the two counts that \<^verbatim>\<open>print_statistics\<close> reports for the generated rows are
  zero: no row has both \<^verbatim>\<open>upid\<close> and \<^verbatim>\<open>sku\<close> empty and no row has an empty
  \<^verbatim>\<open>product_name\<close>. The rows of the second script's valid-data file have a non-empty
  \<^verbatim>\<open>upid\<close> and a non-empty \<^verbatim>\<open>product_name\<close> as well.
\<close>

theorem valid_rows_have_required_fields:
  assumes "scenario self = ''valid''"
  shows "missing_upid_sku (fst (generate ho self)) = 0 \<and>
         missing_name (fst (generate ho self)) = 0 \<and>
         list_all (\<lambda>r. truthy (getitem r ''upid'') \<and> truthy (getitem r ''product_name''))
           (rows_of (\<lambda>i. generate_base_row i True) [0..<NUM_ROWS] g)"
proof -
  let ?data = "fst (generate ho self)"
  have a: "list_all (\<lambda>r. truthy (getitem r ''upid'') \<and> truthy (getitem r ''product_name'')) ?data"
    unfolding generate_def by (rule generate_rows_valid [OF assms])
  then have "list_all (\<lambda>r. truthy (getitem r ''upid'') \<or> truthy (getitem r ''sku'')) ?data"
    by (simp add: list_all_iff)
  from none_fail [OF this] have 1: "missing_upid_sku ?data = 0"
    by (simp add: missing_upid_sku_def)
  from a have "list_all (\<lambda>r. truthy (getitem r ''product_name'')) ?data"
    by (simp add: list_all_iff)
  from none_fail [OF this] have 2: "missing_name ?data = 0"
    by (simp add: missing_name_def)
  have 3: "list_all (\<lambda>r. truthy (getitem r ''upid'') \<and> truthy (getitem r ''product_name''))
           (rows_of (\<lambda>i. generate_base_row i True) [0..<NUM_ROWS] g)"
  proof (rule rows_of_all)
    fix i g'
    have "truthy (getitem (fst (generate_base_row i True g')) ''upid'')"
      using base_row_required [of i True g'] by (simp add: truthy_def generate_upid_csvs_def)
    then show "truthy (getitem (fst (generate_base_row i True g')) ''upid'') \<and>
               truthy (getitem (fst (generate_base_row i True g')) ''product_name'')"
      using base_row_required [of i True g'] by blast
  qed
  from 1 2 3 show ?thesis by simp
qed

theorem valid_rows_have_required_fields_witness:
  "scenario \<lparr>scenario = ''valid'', rows = 2, seed = 7, generated_upids = {}, generated_skus = {},
      random_state = sconst 7\<rparr> = ''valid'' \<and>
   length (fst (generate alphabetical
     \<lparr>scenario = ''valid'', rows = 2, seed = 7, generated_upids = {}, generated_skus = {},
      random_state = sconst 7\<rparr>)) = 2 \<and>
   missing_upid_sku (fst (generate alphabetical
     \<lparr>scenario = ''valid'', rows = 2, seed = 7, generated_upids = {}, generated_skus = {},
      random_state = sconst 7\<rparr>)) = 0 \<and>
   missing_name (fst (generate alphabetical
     \<lparr>scenario = ''valid'', rows = 2, seed = 7, generated_upids = {}, generated_skus = {},
      random_state = sconst 7\<rparr>)) = 0"
  using valid_rows_have_required_fields
    [of "\<lparr>scenario = ''valid'', rows = 2, seed = 7, generated_upids = {}, generated_skus = {},
          random_state = sconst 7\<rparr>" alphabetical "sconst 7"]
  by (simp add: generate_def length_generate_rows)

text \<open>
  C2. The claim fails on the code: without the invalid disposition the composition is
  one entry of \<^verbatim>\<open>MATERIALS\<close> as it stands, and twelve of the eighteen entries carry a
  percentage other than 100. Here the generator draws index 6, the entry
  \<^verbatim>\<open>("Cotton", 65)\<close>: the row of a valid run has the single material Cotton at 65.
\<close>

theorem material_percentages_sum_to_65:
  "fst (generate_materials False (sconst 6755399441055744)) = ([PStr ''Cotton''], [PInt 65]) \<and>
   sum_list (map int_of (snd (fst (generate_materials False (sconst 6755399441055744))))) = 65 \<and>
   map (getitem (fst (generate_row alphabetical 1
          \<lparr>scenario = ''valid'', rows = 1, seed = 1, generated_upids = {}, generated_skus = {},
           random_state = sconst 6755399441055744\<rparr>)))
     [''material_1_name'', ''material_1_percentage'', ''material_2_name'',
      ''material_2_percentage'', ''material_3_name'', ''material_3_percentage''] =
   [PStr ''Cotton'', PInt 65, PStr [], PStr [], PStr [], PStr []]"
  by (simp add: ev cong: let_weak_cong prod.case_cong_weak)

section \<open>Duplicates\<close>

lemma choice_in_set: "xs \<noteq> [] \<Longrightarrow> fst (choice xs g) \<in> set xs"
  by (simp add: choice_def randbelow_def)

text \<open>
  With duplicates allowed, a non-empty pool and a reuse draw below 0.3, the UPID is an
  element of the pool, whatever the order in which the process enumerates it.
\<close>

lemma upid_reused:
  assumes "\<forall>S. finite S \<and> S \<noteq> {} \<longrightarrow> set (ho S) = S"
    and "finite (generated_upids self)" and "generated_upids self \<noteq> {}"
    and "fst (random_random (random_state self)) < f_0_3"
  shows "fst (generate_upid ho True self) \<in> generated_upids self"
proof -
  have s: "set (ho (generated_upids self)) = generated_upids self"
    using assms by blast
  then have "ho (generated_upids self) \<noteq> []"
    using assms(3) by auto
  from choice_in_set [OF this] s assms(3,4) show ?thesis
    by (simp add: generate_upid_def Let_def split_beta)
qed

lemma upid_pool:
  assumes "\<forall>S. finite S \<and> S \<noteq> {} \<longrightarrow> set (ho S) = S"
    and "finite (generated_upids self)"
  shows "generated_upids (snd (generate_upid ho a self)) =
         insert (fst (generate_upid ho a self)) (generated_upids self)"
proof (cases "a \<and> generated_upids self \<noteq> {} \<and> fst (random_random (random_state self)) < f_0_3")
  case True
  then have "fst (generate_upid ho True self) \<in> generated_upids self"
    using upid_reused [OF assms] by blast
  moreover have "generated_upids (snd (generate_upid ho True self)) = generated_upids self"
    using True by (simp add: generate_upid_def Let_def split_beta)
  ultimately show ?thesis
    using True by auto
next
  case False
  then show ?thesis
    by (auto simp add: generate_upid_def Let_def split_beta)
qed

lemma sku_keeps_upids: "generated_upids (snd (generate_sku ho a self)) = generated_upids self"
  by (simp add: generate_sku_def Let_def split_beta)

text \<open>
  In the duplicates scenario the error kind is \<^verbatim>\<open>duplicate\<close> for every row number:
  \<^verbatim>\<open>should_have_error\<close> is not read again.
\<close>

lemma row_duplicates:
  "scenario self = ''duplicates'' \<Longrightarrow>
   getitem (fst (generate_row ho n self)) ''upid'' = PStr (fst (generate_upid ho True self)) \<and>
   generated_upids (snd (generate_row ho n self)) = generated_upids (snd (generate_upid ho True self))"
  by (simp add: generate_row_def disposition_def and_draw_def row_identifiers_def
      getitem_def Let_def split_beta sku_keeps_upids)

lemma scenario_generate_rows: "scenario (snd (generate_rows ho is self)) = scenario self"
  by (induction "is" arbitrary: self) (simp_all add: split_beta Let_def scenario_generate_row)

text \<open>The pool of UPIDs is the set of the UPIDs of the rows generated so far.\<close>

lemma rows_pool:
  assumes "\<forall>S. finite S \<and> S \<noteq> {} \<longrightarrow> set (ho S) = S"
  shows "scenario self = ''duplicates'' \<Longrightarrow> finite (generated_upids self) \<Longrightarrow>
    finite (generated_upids (snd (generate_rows ho is self))) \<and>
    PStr ` generated_upids (snd (generate_rows ho is self)) =
    PStr ` generated_upids self \<union>
      set (map (\<lambda>r. getitem r ''upid'') (fst (generate_rows ho is self)))"
proof (induction "is" arbitrary: self)
  case Nil
  then show ?case by simp
next
  case (Cons i "is")
  let ?s1 = "snd (generate_row ho (int i + 1) self)"
  have p: "generated_upids ?s1 = insert (fst (generate_upid ho True self)) (generated_upids self)"
    using row_duplicates [OF Cons.prems(1)] upid_pool [OF assms Cons.prems(2)] by simp
  have "scenario ?s1 = ''duplicates''" "finite (generated_upids ?s1)"
    using Cons.prems p by (simp_all add: scenario_generate_row)
  from Cons.IH [OF this] p row_duplicates [OF Cons.prems(1), of ho "int i + 1"]
  show ?case
    by (auto simp add: split_beta Let_def)
qed

lemma generate_rows_append:
  "generate_rows ho (is @ js) self =
     (let (d1, s1) = generate_rows ho is self;
          (d2, s2) = generate_rows ho js s1
      in (d1 @ d2, s2))"
  by (induction "is" arbitrary: self) (simp_all add: split_beta Let_def)

lemma upt_split: "k < n \<Longrightarrow> [0..<n] = [0..<k] @ k # [Suc k..<n]"
  by (metis less_imp_le_nat upt_add_eq_append upt_conv_Cons zero_le le_add_diff_inverse add_0)

lemma alphabetical_lists: "\<forall>S. finite S \<and> S \<noteq> {} \<longrightarrow> set (alphabetical S) = S"
  by (simp add: alphabetical_def)

text \<open>
  Ten rows of the duplicates scenario on a generator that counts up from \<open>3 * 2^51\<close>
  for the 168 draws they take: every reuse draw is above 0.3, the identifiers are all
  fresh, and the generator is left at \<open>s\<close>.
\<close>

lemma ten_rows:
  "(case generate_rows ho [0..<10]
          \<lparr>scenario = ''duplicates'', rows = n, seed = sd, generated_upids = {},
           generated_skus = {}, random_state = counting_then 6755399441055744 168 s\<rparr>
    of (d, s') \<Rightarrow> (map (\<lambda>r. (getitem r ''upid'', getitem r ''sku'')) d, s')) =
   ([(PStr ''UPID-955744'', PStr ''SKU-PNT-55746''),
     (PStr ''UPID-955760'', PStr ''SKU-JKT-55763''),
     (PStr ''UPID-955777'', PStr ''SKU-DRS-55780''),
     (PStr ''UPID-955794'', PStr ''SKU-TSH-55797''),
     (PStr ''UPID-955811'', PStr ''SKU-PNT-55814''),
     (PStr ''UPID-955828'', PStr ''SKU-JKT-55831''),
     (PStr ''UPID-955845'', PStr ''SKU-DRS-55848''),
     (PStr ''UPID-955862'', PStr ''SKU-TSH-55865''),
     (PStr ''UPID-955879'', PStr ''SKU-PNT-55882''),
     (PStr ''UPID-955896'', PStr ''SKU-JKT-55899'')],
    \<lparr>scenario = ''duplicates'', rows = n, seed = sd,
     generated_upids =
       {''UPID-955896'', ''UPID-955879'', ''UPID-955862'', ''UPID-955845'', ''UPID-955828'',
        ''UPID-955811'', ''UPID-955794'', ''UPID-955777'', ''UPID-955760'', ''UPID-955744''},
     generated_skus =
       {''SKU-JKT-55899'', ''SKU-PNT-55882'', ''SKU-TSH-55865'', ''SKU-DRS-55848'',
        ''SKU-JKT-55831'', ''SKU-PNT-55814'', ''SKU-TSH-55797'', ''SKU-DRS-55780'',
        ''SKU-JKT-55763'', ''SKU-PNT-55746''},
     random_state = s\<rparr>)"
  by (simp add: ev upt_rec counting_then_numeral cong: let_weak_cong prod.case_cong_weak)

text \<open>
  A run of the duplicates scenario with eleven rows in which no UPID and no SKU
  appears twice: the claim as stated fails here.
\<close>

theorem eleven_rows_without_duplicate:
  "length (fst (generate alphabetical
     \<lparr>scenario = ''duplicates'', rows = 11, seed = 1, generated_upids = {}, generated_skus = {},
      random_state = counting_then 6755399441055744 168 (fromN 6755399441055912)\<rparr>)) = 11 \<and>
   distinct (map (\<lambda>r. getitem r ''upid'') (fst (generate alphabetical
     \<lparr>scenario = ''duplicates'', rows = 11, seed = 1, generated_upids = {}, generated_skus = {},
      random_state = counting_then 6755399441055744 168 (fromN 6755399441055912)\<rparr>))) \<and>
   distinct (map (\<lambda>r. getitem r ''sku'') (fst (generate alphabetical
     \<lparr>scenario = ''duplicates'', rows = 11, seed = 1, generated_upids = {}, generated_skus = {},
      random_state = counting_then 6755399441055744 168 (fromN 6755399441055912)\<rparr>)))"
proof -
  let ?self = "\<lparr>scenario = ''duplicates'', rows = 11, seed = 1, generated_upids = {},
      generated_skus = {},
      random_state = counting_then 6755399441055744 168 (fromN 6755399441055912)\<rparr>"
  let ?ten = "generate_rows alphabetical [0..<10] ?self"
  let ?ids = "\<lambda>r. (getitem r ''upid'', getitem r ''sku'')"
  have ten: "map ?ids (fst ?ten) =
      [(PStr ''UPID-955744'', PStr ''SKU-PNT-55746''),
       (PStr ''UPID-955760'', PStr ''SKU-JKT-55763''),
       (PStr ''UPID-955777'', PStr ''SKU-DRS-55780''),
       (PStr ''UPID-955794'', PStr ''SKU-TSH-55797''),
       (PStr ''UPID-955811'', PStr ''SKU-PNT-55814''),
       (PStr ''UPID-955828'', PStr ''SKU-JKT-55831''),
       (PStr ''UPID-955845'', PStr ''SKU-DRS-55848''),
       (PStr ''UPID-955862'', PStr ''SKU-TSH-55865''),
       (PStr ''UPID-955879'', PStr ''SKU-PNT-55882''),
       (PStr ''UPID-955896'', PStr ''SKU-JKT-55899'')]"
    and state: "snd ?ten =
      \<lparr>scenario = ''duplicates'', rows = 11, seed = 1,
       generated_upids =
         {''UPID-955896'', ''UPID-955879'', ''UPID-955862'', ''UPID-955845'', ''UPID-955828'',
          ''UPID-955811'', ''UPID-955794'', ''UPID-955777'', ''UPID-955760'', ''UPID-955744''},
       generated_skus =
         {''SKU-JKT-55899'', ''SKU-PNT-55882'', ''SKU-TSH-55865'', ''SKU-DRS-55848'',
          ''SKU-JKT-55831'', ''SKU-PNT-55814'', ''SKU-TSH-55797'', ''SKU-DRS-55780'',
          ''SKU-JKT-55763'', ''SKU-PNT-55746''},
       random_state = fromN 6755399441055912\<rparr>"
    using ten_rows [of alphabetical 11 1 "fromN 6755399441055912"]
    by (simp_all add: split_beta)
  have last: "?ids (fst (generate_row alphabetical 11 (snd ?ten))) =
      (PStr ''UPID-955913'', PStr ''SKU-DRS-55916'')"
    unfolding state
    by (simp add: ev cong: let_weak_cong prod.case_cong_weak)
  have "[0..<nat 11] = [0..<10] @ [10]"
    by (simp add: upt_rec)
  then have rows: "fst (generate alphabetical ?self) =
      fst ?ten @ [fst (generate_row alphabetical 11 (snd ?ten))]"
    by (simp add: generate_def generate_rows_append split_beta Let_def)
  have "map ?ids (fst (generate alphabetical ?self)) =
      [(PStr ''UPID-955744'', PStr ''SKU-PNT-55746''),
       (PStr ''UPID-955760'', PStr ''SKU-JKT-55763''),
       (PStr ''UPID-955777'', PStr ''SKU-DRS-55780''),
       (PStr ''UPID-955794'', PStr ''SKU-TSH-55797''),
       (PStr ''UPID-955811'', PStr ''SKU-PNT-55814''),
       (PStr ''UPID-955828'', PStr ''SKU-JKT-55831''),
       (PStr ''UPID-955845'', PStr ''SKU-DRS-55848''),
       (PStr ''UPID-955862'', PStr ''SKU-TSH-55865''),
       (PStr ''UPID-955879'', PStr ''SKU-PNT-55882''),
       (PStr ''UPID-955896'', PStr ''SKU-JKT-55899''),
       (PStr ''UPID-955913'', PStr ''SKU-DRS-55916'')]"
    unfolding rows using ten last by simp
  then have "map fst (map ?ids (fst (generate alphabetical ?self))) =
      map PStr [''UPID-955744'', ''UPID-955760'', ''UPID-955777'', ''UPID-955794'',
        ''UPID-955811'', ''UPID-955828'', ''UPID-955845'', ''UPID-955862'', ''UPID-955879'',
        ''UPID-955896'', ''UPID-955913'']"
    and "map snd (map ?ids (fst (generate alphabetical ?self))) =
      map PStr [''SKU-PNT-55746'', ''SKU-JKT-55763'', ''SKU-DRS-55780'', ''SKU-TSH-55797'',
        ''SKU-PNT-55814'', ''SKU-JKT-55831'', ''SKU-DRS-55848'', ''SKU-TSH-55865'',
        ''SKU-PNT-55882'', ''SKU-JKT-55899'', ''SKU-DRS-55916'']"
    by simp_all
  then have "distinct (map (\<lambda>r. getitem r ''upid'') (fst (generate alphabetical ?self)))"
    and "distinct (map (\<lambda>r. getitem r ''sku'') (fst (generate alphabetical ?self)))"
    by (simp_all add: comp_def)
  moreover have "length (fst (generate alphabetical ?self)) = 11"
    by (simp add: generate_def length_generate_rows)
  ultimately show ?thesis by simp
qed

text \<open>The second script: the UPID of each row of the duplicates file.\<close>

lemma getitem_setitem: "getitem (setitem r k v) k' = (if k' = k then v else getitem r k')"
  by (induction r) (auto simp: getitem_def)

lemma duplicates_row_upid:
  "getitem (fst (duplicates_row i g)) ''upid'' =
   PStr (generate_upid_csvs (if 0 < i \<and> i mod 100 = 0 then i - 50 else i))"
  by (simp add: duplicates_row_def split_beta Let_def getitem_setitem base_row_required)

lemma rows_of_map:
  "(\<And>i g. f (fst (mk_row i g)) = h i) \<Longrightarrow> map f (rows_of mk_row is g) = map (\<lambda>i. h (int i)) is"
  by (induction "is" arbitrary: g) (simp_all add: split_beta Let_def)

lemma length_rows_of: "length (rows_of mk_row is g) = length is"
  by (induction "is" arbitrary: g) (simp_all add: split_beta Let_def)

lemma duplicates_rows_upid:
  "k < NUM_ROWS \<Longrightarrow> getitem (rows_of duplicates_row [0..<NUM_ROWS] g ! k) ''upid'' =
   PStr (generate_upid_csvs (if 0 < int k \<and> int k mod 100 = 0 then int k - 50 else int k))"
proof -
  assume k: "k < NUM_ROWS"
  have "map (\<lambda>r. getitem r ''upid'') (rows_of duplicates_row [0..<NUM_ROWS] g) =
        map (\<lambda>i. PStr (generate_upid_csvs (if 0 < int i \<and> int i mod 100 = 0 then int i - 50 else int i)))
          [0..<NUM_ROWS]"
    by (rule rows_of_map) (rule duplicates_row_upid)
  then have "map (\<lambda>r. getitem r ''upid'') (rows_of duplicates_row [0..<NUM_ROWS] g) ! k =
        map (\<lambda>i. PStr (generate_upid_csvs (if 0 < int i \<and> int i mod 100 = 0 then int i - 50 else int i)))
          [0..<NUM_ROWS] ! k"
    by simp
  then show ?thesis
    using k by (simp add: length_rows_of)
qed

text \<open>The same for SKUs: \<^verbatim>\<open>generate_sku\<close> reuses by a draw of its own.\<close>

lemma sku_reused:
  assumes "\<forall>S. finite S \<and> S \<noteq> {} \<longrightarrow> set (ho S) = S"
    and "finite (generated_skus self)" and "generated_skus self \<noteq> {}"
    and "fst (random_random (random_state self)) < f_0_3"
  shows "fst (generate_sku ho True self) \<in> generated_skus self"
proof -
  have s: "set (ho (generated_skus self)) = generated_skus self"
    using assms by blast
  then have "ho (generated_skus self) \<noteq> []"
    using assms(3) by auto
  from choice_in_set [OF this] s assms(3,4) show ?thesis
    by (simp add: generate_sku_def Let_def split_beta)
qed

lemma sku_pool:
  assumes "\<forall>S. finite S \<and> S \<noteq> {} \<longrightarrow> set (ho S) = S"
    and "finite (generated_skus self)"
  shows "generated_skus (snd (generate_sku ho a self)) =
         insert (fst (generate_sku ho a self)) (generated_skus self)"
proof (cases "a \<and> generated_skus self \<noteq> {} \<and> fst (random_random (random_state self)) < f_0_3")
  case True
  then have "fst (generate_sku ho True self) \<in> generated_skus self"
    using sku_reused [OF assms] by blast
  moreover have "generated_skus (snd (generate_sku ho True self)) = generated_skus self"
    using True by (simp add: generate_sku_def Let_def split_beta)
  ultimately show ?thesis
    using True by auto
next
  case False
  then show ?thesis
    by (auto simp add: generate_sku_def Let_def split_beta)
qed

lemma upid_keeps_skus: "generated_skus (snd (generate_upid ho a self)) = generated_skus self"
  by (simp add: generate_upid_def Let_def split_beta)

lemma row_duplicates_sku:
  "scenario self = ''duplicates'' \<Longrightarrow>
   getitem (fst (generate_row ho n self)) ''sku'' =
     PStr (fst (generate_sku ho True (snd (generate_upid ho True self)))) \<and>
   generated_skus (snd (generate_row ho n self)) =
     generated_skus (snd (generate_sku ho True (snd (generate_upid ho True self))))"
  by (simp add: generate_row_def disposition_def and_draw_def row_identifiers_def
      getitem_def Let_def split_beta)

lemma rows_pool_sku:
  assumes "\<forall>S. finite S \<and> S \<noteq> {} \<longrightarrow> set (ho S) = S"
  shows "scenario self = ''duplicates'' \<Longrightarrow> finite (generated_skus self) \<Longrightarrow>
    finite (generated_skus (snd (generate_rows ho is self))) \<and>
    PStr ` generated_skus (snd (generate_rows ho is self)) =
    PStr ` generated_skus self \<union>
      set (map (\<lambda>r. getitem r ''sku'') (fst (generate_rows ho is self)))"
proof (induction "is" arbitrary: self)
  case Nil
  then show ?case by simp
next
  case (Cons i "is")
  let ?s1 = "snd (generate_row ho (int i + 1) self)"
  let ?u = "snd (generate_upid ho True self)"
  have "finite (generated_skus ?u)"
    using Cons.prems(2) by (simp add: upid_keeps_skus)
  from sku_pool [OF assms this, of True]
  have p: "generated_skus ?s1 = insert (fst (generate_sku ho True ?u)) (generated_skus self)"
    using row_duplicates_sku [OF Cons.prems(1)] by (simp add: upid_keeps_skus)
  have "scenario ?s1 = ''duplicates''" "finite (generated_skus ?s1)"
    using Cons.prems p by (simp_all add: scenario_generate_row)
  from Cons.IH [OF this] p row_duplicates_sku [OF Cons.prems(1), of ho "int i + 1"]
  show ?case
    by (auto simp add: split_beta Let_def)
qed

text \<open>A value that a row shares with an earlier row stays shared in the whole run.\<close>

lemma repeated_in_run:
  assumes "k < nat (rows self)"
    and "f (fst (generate_row ho (int k + 1) (snd (generate_rows ho [0..<k] self)))) \<in>
         set (map f (fst (generate_rows ho [0..<k] self)))"
  shows "\<not> distinct (map f (fst (generate ho self)))"
proof -
  let ?data = "fst (generate_rows ho [0..<k] self)"
  let ?s1 = "snd (generate_rows ho [0..<k] self)"
  have "\<not> distinct (map f (?data @ [fst (generate_row ho (int k + 1) ?s1)]))"
    using assms(2) by simp
  moreover have "\<exists>rest. fst (generate ho self) = (?data @ [fst (generate_row ho (int k + 1) ?s1)]) @ rest"
    unfolding generate_def upt_split [OF assms(1)]
    by (simp add: generate_rows_append split_beta Let_def)
  ultimately show ?thesis
    by (metis distinct_append map_append)
qed

lemma upid_keeps_constant_generator:
  "random_state self = sconst c \<Longrightarrow> random_state (snd (generate_upid ho a self)) = sconst c"
  by (simp add: generate_upid_def rng_defs Let_def split_beta)

text \<open>
  C6, as amended. In the duplicates scenario of \<^verbatim>\<open>generate-test-data.py\<close>, for a row
  with row number above 10: when the reuse draw of \<^verbatim>\<open>generate_upid\<close> is below 0.3 the
  row carries a UPID that an earlier row has, and when the reuse draw of
  \<^verbatim>\<open>generate_sku\<close> (the first draw after \<^verbatim>\<open>generate_upid\<close>) is below 0.3 it carries
  an SKU that an earlier row has; the UPID column, respectively the SKU column, of the
  run then holds a value twice. This for every enumeration order of the pools. (A run
  without such a draw need not hold any duplicate, as the eleven rows above show.) In
  the duplicates file of \<^verbatim>\<open>generate_test_csvs.py\<close>, row 100 always has the UPID of
  row 50.
\<close>

theorem duplicate_after_reuse_draw:
  assumes "scenario self = ''duplicates''"
    and "generated_upids self = {}" and "generated_skus self = {}"
    and "\<forall>S. finite S \<and> S \<noteq> {} \<longrightarrow> set (ho S) = S"
    and "10 \<le> k" and "k < nat (rows self)"
  shows "(fst (random_random (random_state (snd (generate_rows ho [0..<k] self)))) < f_0_3 \<longrightarrow>
           \<not> distinct (map (\<lambda>r. getitem r ''upid'') (fst (generate ho self)))) \<and>
         (fst (random_random (random_state
             (snd (generate_upid ho True (snd (generate_rows ho [0..<k] self)))))) < f_0_3 \<longrightarrow>
           \<not> distinct (map (\<lambda>r. getitem r ''sku'') (fst (generate ho self)))) \<and>
         getitem (rows_of duplicates_row [0..<NUM_ROWS] g ! 100) ''upid'' =
         getitem (rows_of duplicates_row [0..<NUM_ROWS] g ! 50) ''upid''"
proof -
  let ?data = "fst (generate_rows ho [0..<k] self)"
  let ?s1 = "snd (generate_rows ho [0..<k] self)"
  let ?u = "snd (generate_upid ho True ?s1)"
  let ?upid = "\<lambda>r. getitem r ''upid''"
  let ?sku = "\<lambda>r. getitem r ''sku''"
  have sc: "scenario ?s1 = ''duplicates''"
    using assms(1) by (simp add: scenario_generate_rows)
  have ne: "?data \<noteq> []"
    using assms(5) length_generate_rows [of ho "[0..<k]" self] by auto
  have 1: "\<not> distinct (map ?upid (fst (generate ho self)))"
    if draw: "fst (random_random (random_state ?s1)) < f_0_3"
  proof -
    have pool: "finite (generated_upids ?s1)"
      "PStr ` generated_upids ?s1 = set (map ?upid ?data)"
      using rows_pool [OF assms(4) assms(1), of "[0..<k]"] assms(2) by simp_all
    then have "generated_upids ?s1 \<noteq> {}"
      using ne by auto
    from upid_reused [OF assms(4) pool(1) this draw]
    have "PStr (fst (generate_upid ho True ?s1)) \<in> set (map ?upid ?data)"
      using pool(2) by blast
    then have "?upid (fst (generate_row ho (int k + 1) ?s1)) \<in> set (map ?upid ?data)"
      using row_duplicates [OF sc, of ho "int k + 1"] by simp
    then show ?thesis
      by (rule repeated_in_run [OF assms(6)])
  qed
  have 2: "\<not> distinct (map ?sku (fst (generate ho self)))"
    if draw: "fst (random_random (random_state ?u)) < f_0_3"
  proof -
    have pool: "finite (generated_skus ?s1)"
      "PStr ` generated_skus ?s1 = set (map ?sku ?data)"
      using rows_pool_sku [OF assms(4) assms(1), of "[0..<k]"] assms(3) by simp_all
    then have "generated_skus ?s1 \<noteq> {}"
      using ne by auto
    then have "finite (generated_skus ?u)" "generated_skus ?u \<noteq> {}"
      using pool(1) by (simp_all add: upid_keeps_skus)
    from sku_reused [OF assms(4) this draw]
    have "PStr (fst (generate_sku ho True ?u)) \<in> set (map ?sku ?data)"
      using pool(2) by (auto simp add: upid_keeps_skus)
    then have "?sku (fst (generate_row ho (int k + 1) ?s1)) \<in> set (map ?sku ?data)"
      using row_duplicates_sku [OF sc, of ho "int k + 1"] by simp
    then show ?thesis
      by (rule repeated_in_run [OF assms(6)])
  qed
  have 3: "getitem (rows_of duplicates_row [0..<NUM_ROWS] g ! 100) ''upid'' =
         getitem (rows_of duplicates_row [0..<NUM_ROWS] g ! 50) ''upid''"
    using duplicates_rows_upid [of 100 g] duplicates_rows_upid [of 50 g]
    by (simp add: NUM_ROWS_def)
  from 1 2 3 show ?thesis by blast
qed

theorem duplicate_after_reuse_draw_witness:
  "scenario \<lparr>scenario = ''duplicates'', rows = 11, seed = 1, generated_upids = {},
      generated_skus = {}, random_state = counting_then 6755399441055744 168 (sconst 0)\<rparr> =
     ''duplicates'' \<and>
   fst (random_random (random_state (snd (generate_rows alphabetical [0..<10]
     \<lparr>scenario = ''duplicates'', rows = 11, seed = 1, generated_upids = {},
      generated_skus = {}, random_state = counting_then 6755399441055744 168 (sconst 0)\<rparr>)))) < f_0_3 \<and>
   fst (random_random (random_state (snd (generate_upid alphabetical True
     (snd (generate_rows alphabetical [0..<10]
       \<lparr>scenario = ''duplicates'', rows = 11, seed = 1, generated_upids = {},
        generated_skus = {}, random_state = counting_then 6755399441055744 168 (sconst 0)\<rparr>)))))) < f_0_3 \<and>
   \<not> distinct (map (\<lambda>r. getitem r ''upid'') (fst (generate alphabetical
     \<lparr>scenario = ''duplicates'', rows = 11, seed = 1, generated_upids = {},
      generated_skus = {}, random_state = counting_then 6755399441055744 168 (sconst 0)\<rparr>))) \<and>
   \<not> distinct (map (\<lambda>r. getitem r ''sku'') (fst (generate alphabetical
     \<lparr>scenario = ''duplicates'', rows = 11, seed = 1, generated_upids = {},
      generated_skus = {}, random_state = counting_then 6755399441055744 168 (sconst 0)\<rparr>))) \<and>
   getitem (rows_of duplicates_row [0..<NUM_ROWS] (sconst 0) ! 100) ''upid'' = PStr ''UPID-100050'' \<and>
   getitem (rows_of duplicates_row [0..<NUM_ROWS] (sconst 0) ! 50) ''upid'' = PStr ''UPID-100050''"
proof -
  let ?self = "\<lparr>scenario = ''duplicates'', rows = 11, seed = 1, generated_upids = {},
      generated_skus = {}, random_state = counting_then 6755399441055744 168 (sconst 0)\<rparr>"
  let ?s1 = "snd (generate_rows alphabetical [0..<10] ?self)"
  have st: "random_state ?s1 = sconst 0"
    using ten_rows [of alphabetical 11 1 "sconst 0"] by (simp add: split_beta)
  then have draw1: "fst (random_random (random_state ?s1)) < f_0_3"
    by (simp add: random_random_def f_0_3_def)
  have "random_state (snd (generate_upid alphabetical True ?s1)) = sconst 0"
    using st by (rule upid_keeps_constant_generator)
  then have draw2: "fst (random_random (random_state (snd (generate_upid alphabetical True ?s1)))) < f_0_3"
    by (simp add: random_random_def f_0_3_def)
  have fifty: "getitem (rows_of duplicates_row [0..<NUM_ROWS] (sconst 0) ! 50) ''upid'' = PStr ''UPID-100050''"
    using duplicates_rows_upid [of 50 "sconst 0"]
    by (simp add: NUM_ROWS_def generate_upid_csvs_def str_defs)
  have "scenario ?self = ''duplicates''" "generated_upids ?self = {}" "generated_skus ?self = {}"
    "(10::nat) \<le> 10" "10 < nat (rows ?self)"
    by simp_all
  from duplicate_after_reuse_draw [OF this(1,2,3) alphabetical_lists this(4,5), of "sconst 0"]
    draw1 draw2 fifty
  show ?thesis
    by simp
qed

section \<open>Writing the file\<close>

lemma dict_to_list_ok: "map fst r = headers \<Longrightarrow> dict_to_list headers r = Inr (record_of headers r)"
  by (auto simp add: dict_to_list_def record_of_def list_ex_iff)

lemma write_record_eq:
  "files io name = Some c \<Longrightarrow>
   write_record name rec io =
     (if fits (capacity io) [rec] then Inr () else Inl OSError,
      io\<lparr>files := (files io)(name \<mapsto> c @ accepted (capacity io) [rec]),
         capacity := remaining (capacity io) 1\<rparr>)"
  by (cases "capacity io"; cases "the (capacity io)")
     (auto simp add: write_record_def fits_def accepted_def remaining_def fun_upd_idem)

lemma accepted_Nil: "accepted cap [] = []"
  by (cases cap) (simp_all add: accepted_def)

lemma fits_Nil: "fits cap []"
  by (cases cap) (simp_all add: fits_def)

lemma accepted_Cons:
  "fits cap [x] \<Longrightarrow> accepted cap (x # xs) = x # accepted (remaining cap 1) xs"
  by (cases cap; cases "the cap") (auto simp add: accepted_def fits_def remaining_def)

lemma accepted_none: "\<not> fits cap [x] \<Longrightarrow> accepted cap (x # xs) = []"
  by (cases cap) (auto simp add: accepted_def fits_def)

lemma fits_Cons: "fits cap [x] \<Longrightarrow> fits cap (x # xs) = fits (remaining cap 1) xs"
  by (cases cap) (auto simp add: fits_def remaining_def)

lemma fits_none: "\<not> fits cap [x] \<Longrightarrow> \<not> fits cap (x # xs)"
  by (cases cap) (auto simp add: fits_def)

lemma writerows_eq:
  "list_all (\<lambda>r. map fst r = headers) rs \<Longrightarrow> files io name = Some c \<Longrightarrow>
   fst (writerows headers name rs io) =
     (if fits (capacity io) (map (record_of headers) rs) then Inr () else Inl OSError) \<and>
   files (snd (writerows headers name rs io)) name =
     Some (c @ accepted (capacity io) (map (record_of headers) rs))"
proof (induction rs arbitrary: io c)
  case Nil
  then show ?case
    by (simp add: fits_Nil accepted_Nil)
next
  case (Cons r rs)
  let ?rec = "record_of headers r"
  let ?io1 = "io\<lparr>files := (files io)(name \<mapsto> c @ accepted (capacity io) [?rec]),
         capacity := remaining (capacity io) 1\<rparr>"
  have w: "writerow headers name r io =
      (if fits (capacity io) [?rec] then Inr () else Inl OSError, ?io1)"
    using Cons.prems by (simp add: writerow_def dict_to_list_ok write_record_eq)
  show ?case
  proof (cases "fits (capacity io) [?rec]")
    case True
    have "list_all (\<lambda>r. map fst r = headers) rs"
      and "files ?io1 name = Some (c @ [?rec])"
      using Cons.prems True by (simp_all add: accepted_Cons accepted_Nil)
    from Cons.IH [OF this] True show ?thesis
      by (simp add: w accepted_Cons fits_Cons)
  next
    case False
    then show ?thesis
      using Cons.prems(2) by (simp add: w accepted_none fits_none)
  qed
qed

lemma has_key_iff: "has_key r k = (k \<in> set (map fst r))"
  by (simp add: has_key_def map_of_eq_None_iff)

lemma keys_readable: "map fst r = fieldnames \<Longrightarrow> statistics_readable r"
  by (simp add: statistics_readable_def has_key_iff fieldnames_def)

lemma statistics_never_raise:
  "list_all (\<lambda>r. map fst r = fieldnames) data \<Longrightarrow> data \<noteq> [] \<Longrightarrow> print_statistics data = Inr ()"
  by (auto simp add: print_statistics_def list_all_iff list_ex_iff keys_readable)

lemma write_csv_outcome:
  assumes "list_all (\<lambda>r. map fst r = fieldnames) data" and "data \<noteq> []"
  shows "fst (write_csv data out io) =
           (if fits (capacity io) (fieldnames # map (record_of fieldnames) data)
            then Inr () else Inl OSError) \<and>
         files (snd (write_csv data out io)) out =
           Some (accepted (capacity io) (fieldnames # map (record_of fieldnames) data))"
proof -
  let ?io0 = "open_w out io"
  let ?io1 = "?io0\<lparr>files := (files ?io0)(out \<mapsto> [] @ accepted (capacity ?io0) [fieldnames]),
         capacity := remaining (capacity ?io0) 1\<rparr>"
  have c: "capacity ?io0 = capacity io" and f: "files ?io0 out = Some []"
    by (simp_all add: open_w_def)
  have h: "writeheader fieldnames out ?io0 =
      (if fits (capacity io) [fieldnames] then Inr () else Inl OSError, ?io1)"
    using write_record_eq [OF f, of fieldnames] by (simp add: writeheader_def c)
  have f1: "files ?io1 out = Some (accepted (capacity io) [fieldnames])"
    by (simp add: c)
  from writerows_eq [OF assms(1) f1]
  have r: "fst (writerows fieldnames out data ?io1) =
     (if fits (remaining (capacity io) 1) (map (record_of fieldnames) data) then Inr () else Inl OSError)"
    "files (snd (writerows fieldnames out data ?io1)) out =
     Some (accepted (capacity io) [fieldnames] @
           accepted (remaining (capacity io) 1) (map (record_of fieldnames) data))"
    by (simp_all add: c)
  show ?thesis
  proof (cases "fits (capacity io) [fieldnames]")
    case True
    have "print_statistics data = Inr ()"
      using assms by (rule statistics_never_raise)
    then show ?thesis
      using r True
      by (cases "writerows fieldnames out data ?io1"; cases "fst (writerows fieldnames out data ?io1)")
         (simp_all add: write_csv_def h accepted_Cons fits_Cons accepted_Nil split: if_splits)
  next
    case False
    then show ?thesis
      by (simp add: write_csv_def h c accepted_none fits_none)
  qed
qed

lemma length_generate: "length (fst (generate ho self)) = nat (rows self)"
  by (simp add: generate_def length_generate_rows)

lemma rows_init: "rows (init mt e sc n sd) = n"
  by (simp add: init_def Let_def)

lemma main_outcome:
  assumes "sc \<in> set [''valid'', ''duplicates'', ''missing_fields'', ''invalid_formats'', ''mixed'']"
    and "1 \<le> n"
  shows "fst (main mt ho e sc n out sd io) =
           (if fits (capacity io)
                 (fieldnames # map (record_of fieldnames) (fst (generate ho (init mt e sc n sd))))
            then 0 else 1) \<and>
         files (snd (main mt ho e sc n out sd io)) out =
           Some (accepted (capacity io)
                 (fieldnames # map (record_of fieldnames) (fst (generate ho (init mt e sc n sd)))))"
proof -
  let ?data = "fst (generate ho (init mt e sc n sd))"
  have "rows (init mt e sc n sd) = n"
    by (simp add: init_def Let_def)
  then have "length ?data = nat n"
    by (simp add: generate_def length_generate_rows)
  then have ne: "?data \<noteq> []"
    using assms(2) by auto
  have keys: "list_all (\<lambda>r. map fst r = fieldnames) ?data"
    by (simp add: generate_def generate_rows_keys)
  from write_csv_outcome [OF keys ne, of out io] assms show ?thesis
    by (cases "write_csv ?data out io"; cases "fst (write_csv ?data out io)")
       (simp_all add: main_def Let_def split_beta split: if_splits)
qed

lemma write_each_eq:
  assumes "\<And>i g. map fst (fst (mk_row i g)) = headers"
  shows "files io name = Some c \<Longrightarrow>
   fst (write_each headers name mk_row is g io) =
     (if fits (capacity io) (map (record_of headers) (rows_of mk_row is g))
      then Inr () else Inl OSError) \<and>
   files (snd (snd (write_each headers name mk_row is g io))) name =
     Some (c @ accepted (capacity io) (map (record_of headers) (rows_of mk_row is g)))"
proof (induction "is" arbitrary: io c g)
  case Nil
  then show ?case
    by (simp add: fits_Nil accepted_Nil)
next
  case (Cons i "is")
  let ?r = "fst (mk_row (int i) g)"
  let ?g1 = "snd (mk_row (int i) g)"
  let ?rec = "record_of headers ?r"
  let ?io1 = "io\<lparr>files := (files io)(name \<mapsto> c @ accepted (capacity io) [?rec]),
         capacity := remaining (capacity io) 1\<rparr>"
  have w: "writerow headers name ?r io =
      (if fits (capacity io) [?rec] then Inr () else Inl OSError, ?io1)"
    using Cons.prems assms by (simp add: writerow_def dict_to_list_ok write_record_eq)
  show ?case
  proof (cases "fits (capacity io) [?rec]")
    case True
    have "files ?io1 name = Some (c @ [?rec])"
      using True by (simp add: accepted_Cons accepted_Nil)
    from Cons.IH [OF this, of ?g1] True show ?thesis
      by (simp add: w split_beta Let_def accepted_Cons fits_Cons)
  next
    case False
    then show ?thesis
      using Cons.prems by (simp add: w split_beta Let_def accepted_none fits_none)
  qed
qed

lemma generate_csv_outcome:
  assumes "\<And>i g. map fst (fst (mk_row i g)) = headers"
  shows "fst (generate_csv name headers mk_row n g io) =
     (if fits (capacity io) (headers # map (record_of headers) (rows_of mk_row [0..<n] g))
      then Inr () else Inl OSError) \<and>
   files (snd (snd (generate_csv name headers mk_row n g io))) name =
     Some (accepted (capacity io) (headers # map (record_of headers) (rows_of mk_row [0..<n] g)))"
proof -
  let ?io0 = "open_w name io"
  let ?io1 = "?io0\<lparr>files := (files ?io0)(name \<mapsto> [] @ accepted (capacity ?io0) [headers]),
         capacity := remaining (capacity ?io0) 1\<rparr>"
  have c: "capacity ?io0 = capacity io" and f: "files ?io0 name = Some []"
    by (simp_all add: open_w_def)
  have h: "writeheader headers name ?io0 =
      (if fits (capacity io) [headers] then Inr () else Inl OSError, ?io1)"
    using write_record_eq [OF f, of headers] by (simp add: writeheader_def c)
  show ?thesis
  proof (cases "fits (capacity io) [headers]")
    case True
    have "files ?io1 name = Some [headers]"
      using True by (simp add: c accepted_Cons accepted_Nil)
    from write_each_eq [of mk_row headers, OF assms this, of "[0..<n]" g] True show ?thesis
      by (simp add: generate_csv_def h c accepted_Cons fits_Cons)
  next
    case False
    then show ?thesis
      by (simp add: generate_csv_def h c accepted_none fits_none)
  qed
qed

text \<open>
  A run that aborts and leaves a truncated file: the device takes one record, so the
  header is written over the earlier file and the write of the only row fails.
\<close>

theorem truncated_file_left_in_place:
  "fst (main counting_seed alphabetical (sconst 0) ''valid'' 1 ''out.csv'' (Some 5)
     \<lparr>files = [''out.csv'' \<mapsto> [[''an earlier file'']]], capacity = Some 1\<rparr>) = 1 \<and>
   files (snd (main counting_seed alphabetical (sconst 0) ''valid'' 1 ''out.csv'' (Some 5)
     \<lparr>files = [''out.csv'' \<mapsto> [[''an earlier file'']]], capacity = Some 1\<rparr>)) ''out.csv'' =
     Some [fieldnames] \<and>
   length (fst (generate alphabetical (init counting_seed (sconst 0) ''valid'' 1 (Some 5)))) = 1"
proof -
  have len: "length (fst (generate alphabetical (init counting_seed (sconst 0) ''valid'' 1 (Some 5)))) = 1"
    by (simp add: length_generate rows_init)
  have ok: "''valid'' \<in> set [''valid'', ''duplicates'', ''missing_fields'', ''invalid_formats'', ''mixed'']"
    "(1::int) \<le> 1"
    by simp_all
  from main_outcome [OF ok, of counting_seed alphabetical "sconst 0" "''out.csv''" "Some 5"
      "\<lparr>files = [''out.csv'' \<mapsto> [[''an earlier file'']]], capacity = Some 1\<rparr>"] len
  show ?thesis
    by (simp add: fits_def accepted_def)
qed

text \<open>
  C7, as amended. A run of \<^verbatim>\<open>main\<close> with an accepted scenario and a row count of at
  least 1 opens the output file for writing, which empties it, and writes the header
  and the rows one after the other. When the device takes all of them the run exits
  with status 0 and the file holds the header and every row; when a write fails the
  run exits with status 1 and the file is left holding the records written before the
  failure. The first file of \<^verbatim>\<open>generate_test_csvs.py\<close> is written the same way.
\<close>

theorem write_is_not_atomic:
  assumes "sc \<in> set [''valid'', ''duplicates'', ''missing_fields'', ''invalid_formats'', ''mixed'']"
    and "1 \<le> n"
  shows "fst (main mt ho e sc n out sd io) =
           (if fits (capacity io)
                 (fieldnames # map (record_of fieldnames) (fst (generate ho (init mt e sc n sd))))
            then 0 else 1) \<and>
         files (snd (main mt ho e sc n out sd io)) out =
           Some (accepted (capacity io)
                 (fieldnames # map (record_of fieldnames) (fst (generate ho (init mt e sc n sd))))) \<and>
         fst (generate_valid_csv g io) =
           (if fits (capacity io)
                 (get_base_headers # map (record_of get_base_headers)
                    (rows_of (\<lambda>i. generate_base_row i True) [0..<NUM_ROWS] g))
            then Inr () else Inl OSError) \<and>
         files (snd (snd (generate_valid_csv g io))) ''test-01-valid-data.csv'' =
           Some (accepted (capacity io)
                 (get_base_headers # map (record_of get_base_headers)
                    (rows_of (\<lambda>i. generate_base_row i True) [0..<NUM_ROWS] g)))"
  using main_outcome [OF assms, of mt ho e out sd io]
    generate_csv_outcome [of "\<lambda>i. generate_base_row i True" get_base_headers
      "''test-01-valid-data.csv''" NUM_ROWS g io]
  by (simp add: generate_valid_csv_def base_row_keys)


theorem write_is_not_atomic_witness:
  "fst (main counting_seed alphabetical (sconst 0) ''valid'' 2 ''out.csv'' (Some 5)
         \<lparr>files = Map.empty, capacity = None\<rparr>) = 0 \<and>
   map_option length (files (snd (main counting_seed alphabetical (sconst 0) ''valid'' 2 ''out.csv'' (Some 5)
         \<lparr>files = Map.empty, capacity = None\<rparr>)) ''out.csv'') = Some 3 \<and>
   fst (main counting_seed alphabetical (sconst 0) ''valid'' 2 ''out.csv'' (Some 5)
         \<lparr>files = Map.empty, capacity = Some 2\<rparr>) = 1 \<and>
   map_option length (files (snd (main counting_seed alphabetical (sconst 0) ''valid'' 2 ''out.csv'' (Some 5)
         \<lparr>files = Map.empty, capacity = Some 2\<rparr>)) ''out.csv'') = Some 2"
proof -
  have len: "length (fst (generate alphabetical (init counting_seed (sconst 0) ''valid'' 2 (Some 5)))) = 2"
    by (simp add: length_generate rows_init)
  have ok: "''valid'' \<in> set [''valid'', ''duplicates'', ''missing_fields'', ''invalid_formats'', ''mixed'']"
    "(1::int) \<le> 2"
    by simp_all
  from write_is_not_atomic [OF ok, of counting_seed alphabetical "sconst 0" "''out.csv''" "Some 5"
      "\<lparr>files = Map.empty, capacity = None\<rparr>" "sconst 0"]
    write_is_not_atomic [OF ok, of counting_seed alphabetical "sconst 0" "''out.csv''" "Some 5"
      "\<lparr>files = Map.empty, capacity = Some 2\<rparr>" "sconst 0"] len
  show ?thesis
    by (simp add: fits_def accepted_def)
qed


end
